theory Spec2Isabelle
  imports Complex_Main
begin

section \<open>Values of the JavaScript runtime\<close>

text \<open>
  A JavaScript number is an IEEE double. Every finite double is a rational, so the finite
  numbers are embedded as \<open>Fin q\<close>; the three special values are constructors of their
  own. The operations used by the program on these values (\<open>Math.round\<close>,
  \<open>Math.floor\<close>, \<open>Math.min\<close>, \<open>Math.max\<close> and the comparisons) are exact on doubles, so
  a property shown for every rational holds for every double. Positive and negative zero
  are identified (they are \<open>===\<close>, and \<open>Math.max(0, -0)\<close> is \<open>+0\<close>).
\<close>

datatype jsnum = Fin rat | NaN | PosInf | NegInf

text \<open>\<open>a < b\<close> on numbers: false as soon as one side is \<open>NaN\<close>.\<close>

fun js_lt :: "jsnum \<Rightarrow> jsnum \<Rightarrow> bool" where
  "js_lt NaN b = False"
| "js_lt a NaN = False"
| "js_lt (Fin a) (Fin b) = (a < b)"
| "js_lt (Fin a) PosInf = True"
| "js_lt (Fin a) NegInf = False"
| "js_lt PosInf b = False"
| "js_lt NegInf NegInf = False"
| "js_lt NegInf b = True"

text \<open>\<open>a <= b\<close> on numbers: neither side is \<open>NaN\<close> and \<open>b < a\<close> is false.\<close>

definition js_le :: "jsnum \<Rightarrow> jsnum \<Rightarrow> bool" where
  "js_le a b = (a \<noteq> NaN \<and> b \<noteq> NaN \<and> \<not> js_lt b a)"

definition Math_min :: "jsnum \<Rightarrow> jsnum \<Rightarrow> jsnum" where
  "Math_min a b = (if a = NaN \<or> b = NaN then NaN else if js_lt b a then b else a)"

definition Math_max :: "jsnum \<Rightarrow> jsnum \<Rightarrow> jsnum" where
  "Math_max a b = (if a = NaN \<or> b = NaN then NaN else if js_lt a b then b else a)"

text \<open>
  \<open>Math.round\<close>: the integer nearest to the argument, a tie going towards \<open>+\<infinity>\<close>,
  which is \<open>\<lfloor>x + 1/2\<rfloor>\<close> computed exactly. \<open>NaN\<close> and the infinities are returned as
  they are.
\<close>

fun Math_round :: "jsnum \<Rightarrow> jsnum" where
  "Math_round (Fin q) = Fin (of_int \<lfloor>q + 1 / 2\<rfloor>)"
| "Math_round n = n"

fun Math_floor :: "jsnum \<Rightarrow> jsnum" where
  "Math_floor (Fin q) = Fin (of_int \<lfloor>q\<rfloor>)"
| "Math_floor n = n"

text \<open>
  A value as \<open>JSON.parse\<close> or a property read can produce it: \<open>JUndefined\<close> is the read
  of a missing property; a JSON number too large for a double (\<open>1e999\<close>) parses to
  \<open>Infinity\<close>. An object is the list of its members, a later member shadowing an earlier
  one of the same name.
\<close>

datatype jsvalue =
    JUndefined
  | JNull
  | JBoolean bool
  | JNumber jsnum
  | JString string
  | JArray "jsvalue list"
  | JObject "(string \<times> jsvalue) list"

fun typeof :: "jsvalue \<Rightarrow> string" where
  "typeof JUndefined = ''undefined''"
| "typeof JNull = ''object''"
| "typeof (JBoolean b) = ''boolean''"
| "typeof (JNumber n) = ''number''"
| "typeof (JString s) = ''string''"
| "typeof (JArray xs) = ''object''"
| "typeof (JObject kvs) = ''object''"

text \<open>A \<open>Date\<close> is its time value in milliseconds; \<open>NaN\<close> is the invalid date.\<close>

datatype Date = Date (getTime: jsnum)

text \<open>
  What the program takes from the runtime and the locale, as parameters of the model:
  the decimal string of a finite number (\<open>Number::toString\<close>), the parse of a
  timestamp string by \<open>new Date(string)\<close>, and the time string of
  \<open>date.toLocaleTimeString('en-US', ...)\<close>.
\<close>

record runtime =
  Number_toString :: "rat \<Rightarrow> string"
  Date_parse :: "string \<Rightarrow> Date"
  toLocaleTimeString :: "Date \<Rightarrow> string"

text \<open>
  The string conversion of a value inside a template literal; \<open>None\<close> is the
  \<open>TypeError\<close> it throws. A value of \<open>JSON.parse\<close> holds no function. So an object
  with a member named \<open>toString\<close> has no callable \<open>toString\<close>, its \<open>valueOf\<close>
  (its own member, not callable, or the inherited one, which returns the object) gives no
  primitive either, and the conversion throws; any other object is converted by
  \<open>Object.prototype.toString\<close>. An array is converted by \<open>join\<close>: its elements
  converted in turn and separated by commas, \<open>null\<close> and \<open>undefined\<close> giving the
  empty string, and a conversion that throws ending the whole.
\<close>

fun join_comma :: "string list \<Rightarrow> string" where
  "join_comma [] = []"
| "join_comma [x] = x"
| "join_comma (x # y # ys) = x @ '','' @ join_comma (y # ys)"

fun ToString :: "runtime \<Rightarrow> jsvalue \<Rightarrow> string option" where
  "ToString rt JUndefined = Some ''undefined''"
| "ToString rt JNull = Some ''null''"
| "ToString rt (JBoolean b) = Some (if b then ''true'' else ''false'')"
| "ToString rt (JNumber n) =
     Some (case n of
             Fin q \<Rightarrow> Number_toString rt q
           | NaN \<Rightarrow> ''NaN''
           | PosInf \<Rightarrow> ''Infinity''
           | NegInf \<Rightarrow> ''-Infinity'')"
| "ToString rt (JString s) = Some s"
| "ToString rt (JArray xs) =
     map_option join_comma
       (those (map (\<lambda>x. if x = JUndefined \<or> x = JNull then Some [] else ToString rt x) xs))"
| "ToString rt (JObject kvs) =
     (if ''toString'' \<in> fst ` set kvs then None else Some ''[object Object]'')"

text \<open>The decimal digits of a natural number, as a template literal prints an integer.\<close>

definition digit :: "nat \<Rightarrow> char" where
  "digit d =
     (if d = 0 then CHR ''0'' else if d = 1 then CHR ''1'' else if d = 2 then CHR ''2''
      else if d = 3 then CHR ''3'' else if d = 4 then CHR ''4'' else if d = 5 then CHR ''5''
      else if d = 6 then CHR ''6'' else if d = 7 then CHR ''7'' else if d = 8 then CHR ''8''
      else CHR ''9'')"

fun decimal :: "nat \<Rightarrow> string" where
  "decimal n = (if n < 10 then [digit n] else decimal (n div 10) @ [digit (n mod 10)])"

declare decimal.simps [simp del]

section \<open>types/sensor.types.ts\<close>

datatype SensorCondition = Good | Okay | Bad

record SensorData =
  soilMoisture :: jsnum
  light :: jsnum

text \<open>
  \<open>HistoryDataPoint\<close> has the two fields of \<open>SensorData\<close> and two of its own;
  \<open>time\<close> is named \<open>time_str\<close> here.
\<close>

record HistoryDataPoint = SensorData +
  time_str :: string
  timestamp :: jsnum

record ConnectionState =
  isConnected :: bool
  lastUpdate :: "Date option"
  isChecking :: bool
  error :: "string option"

datatype DataSourceMode = mock | esp32 | websocket

record ESP32Config =
  endpoint :: string
  updateInterval :: nat
  timeout :: nat

record ThresholdLevel =
  level_value :: jsnum
  label :: SensorCondition
  color :: string

record WebSocketConfig =
  url :: string
  reconnectInterval :: nat
  maxReconnectAttempts :: nat

record AppConfig =
  dataSource :: DataSourceMode
  esp32_config :: ESP32Config
  websocket_config :: "WebSocketConfig option"
  historyMaxPoints :: int

record SensorThresholds =
  good :: jsnum
  okay :: jsnum
  levels :: "ThresholdLevel list"

section \<open>config/app.config.ts\<close>

definition DATA_SOURCE_MODE :: DataSourceMode where
  "DATA_SOURCE_MODE = esp32"

definition ESP32_CONFIG :: ESP32Config where
  "ESP32_CONFIG =
     \<lparr>endpoint = ''https://plant-monitor-api.onrender.com/api/readings/latest'',
      updateInterval = 5,
      timeout = 15000\<rparr>"

definition SOIL_MOISTURE_THRESHOLDS :: SensorThresholds where
  "SOIL_MOISTURE_THRESHOLDS =
     \<lparr>good = Fin 1500,
      okay = Fin 2500,
      levels =
        [\<lparr>level_value = Fin 1500, label = Good, color = ''hsl(var(--success))''\<rparr>,
         \<lparr>level_value = Fin 2500, label = Okay, color = ''hsl(var(--warning))''\<rparr>,
         \<lparr>level_value = Fin 4095, label = Bad, color = ''hsl(var(--destructive))''\<rparr>]\<rparr>"

definition LIGHT_THRESHOLDS :: SensorThresholds where
  "LIGHT_THRESHOLDS =
     \<lparr>good = Fin 3000,
      okay = Fin 1500,
      levels =
        [\<lparr>level_value = Fin 1500, label = Bad, color = ''hsl(var(--destructive))''\<rparr>,
         \<lparr>level_value = Fin 3000, label = Okay, color = ''hsl(var(--warning))''\<rparr>,
         \<lparr>level_value = Fin 4095, label = Good, color = ''hsl(var(--success))''\<rparr>]\<rparr>"

definition HISTORY_MAX_POINTS :: int where
  "HISTORY_MAX_POINTS = 30"

definition WEBSOCKET_CONFIG :: WebSocketConfig where
  "WEBSOCKET_CONFIG =
     \<lparr>url = ''ws://192.168.137.77:81/'',
      reconnectInterval = 5000,
      maxReconnectAttempts = 10\<rparr>"

definition APP_CONFIG :: AppConfig where
  "APP_CONFIG =
     \<lparr>dataSource = DATA_SOURCE_MODE,
      esp32_config = ESP32_CONFIG,
      websocket_config = Some WEBSOCKET_CONFIG,
      historyMaxPoints = HISTORY_MAX_POINTS\<rparr>"

definition getSoilMoistureCondition :: "jsnum \<Rightarrow> SensorCondition" where
  "getSoilMoistureCondition v =
     (if js_le v (good SOIL_MOISTURE_THRESHOLDS) then Good
      else if js_le v (okay SOIL_MOISTURE_THRESHOLDS) then Okay
      else Bad)"

definition getLightCondition :: "jsnum \<Rightarrow> SensorCondition" where
  "getLightCondition v =
     (if js_lt v (okay LIGHT_THRESHOLDS) then Bad
      else if js_lt v (good LIGHT_THRESHOLDS) then Okay
      else Good)"

section \<open>services/esp32Service.ts: errors and the validation of a field\<close>

text \<open>
  The three error classes. \<open>ESP32TimeoutError\<close> carries the timeout and builds its
  message from it; the other two carry the message they are constructed with.
\<close>

datatype ESP32Error =
    ESP32ConnectionError string
  | ESP32TimeoutError nat
  | ESP32ParseError string

fun message :: "ESP32Error \<Rightarrow> string" where
  "message (ESP32ConnectionError m) = m"
| "message (ESP32TimeoutError t) = ''Request timed out after '' @ decimal t @ ''ms''"
| "message (ESP32ParseError m) = m"

text \<open>
  What a function of the service can throw, and what the \<open>catch\<close> clause of
  \<open>fetchSensorData\<close> receives: an error of the runtime, known by its name, or one of
  the three classes of this file.
\<close>

datatype thrown = Native string | Raised ESP32Error

text \<open>
  The \<open>throw\<close> statement of \<open>validateADCValue\<close>. The template literal
  \<open>`Invalid ${field} value: ${value}`\<close> is evaluated before the error is constructed:
  when the conversion of \<open>value\<close> throws, its \<open>TypeError\<close> is what leaves the
  function.
\<close>

definition invalid_value :: "runtime \<Rightarrow> jsvalue \<Rightarrow> string \<Rightarrow> thrown" where
  "invalid_value rt v field =
     (case ToString rt v of
        None \<Rightarrow> Native ''TypeError''
      | Some s \<Rightarrow> Raised (ESP32ParseError (''Invalid '' @ field @ '' value: '' @ s)))"

text \<open>
  \<open>validateADCValue(value: unknown, field)\<close>. The guard
  \<open>typeof value !== 'number' || isNaN(value)\<close> throws for every value that is not a
  number and for the number \<open>NaN\<close>; every other number, the two infinities included,
  goes on to \<open>Math.max(0, Math.min(4095, Math.round(value)))\<close>.
\<close>

definition validateADCValue :: "runtime \<Rightarrow> jsvalue \<Rightarrow> string \<Rightarrow> thrown + jsnum" where
  "validateADCValue rt v field =
     (case v of
        JNumber n \<Rightarrow>
          if n = NaN then Inl (invalid_value rt v field)
          else Inr (Math_max (Fin 0) (Math_min (Fin 4095) (Math_round n)))
      | _ \<Rightarrow> Inl (invalid_value rt v field))"

section \<open>services/esp32Service.ts: one request\<close>

record BackendLatestReading =
  soilValue :: jsvalue
  ldrValue :: jsvalue
  soilCondition :: string
  lightCondition :: string
  reading_timestamp :: string
  deviceId :: string
  wifiRSSI :: "jsnum option"
  lastUpdated :: string

record BackendAPIResponse =
  success :: bool
  response_timestamp :: string
  count :: jsnum
  deviceStatus :: string
  timeSinceLastReading :: "jsnum option"
  latest :: "BackendLatestReading option"
  response_error :: "string option"

record ExtendedSensorData = SensorData +
  receivedAt :: "Date option"
  ext_deviceId :: "string option"
  isESP32Online :: bool

text \<open>
  The body is taken at its declared interface \<open>BackendAPIResponse\<close>; the two readings
  are arbitrary values, as the \<open>unknown\<close> parameter of \<open>validateADCValue\<close> has them.
  \<open>response.error || 'No reading data available'\<close> takes the default for a missing and
  for an empty string.
\<close>

definition error_or_default :: "string option \<Rightarrow> string" where
  "error_or_default e =
     (case e of
        None \<Rightarrow> ''No reading data available''
      | Some m \<Rightarrow> if m = [] then ''No reading data available'' else m)"

text \<open>
  \<open>transformBackendData\<close>. The object literal evaluates its members in order, so
  \<open>soilValue\<close> is validated before \<open>ldrValue\<close> and its error is the one thrown when
  both are invalid. A \<open>Date\<close> is truthy even when invalid, an empty string is not.
  What is thrown here is caught by \<open>fetchSensorData\<close>.
\<close>

definition transformBackendData ::
  "runtime \<Rightarrow> BackendAPIResponse \<Rightarrow> thrown + ExtendedSensorData" where
  "transformBackendData rt response =
     (if success response then
        (case latest response of
           None \<Rightarrow> Inl (Raised (ESP32ParseError (error_or_default (response_error response))))
         | Some reading \<Rightarrow>
             (case validateADCValue rt (soilValue reading) ''soilValue'' of
                Inl e \<Rightarrow> Inl e
              | Inr s \<Rightarrow>
                  (case validateADCValue rt (ldrValue reading) ''ldrValue'' of
                     Inl e \<Rightarrow> Inl e
                   | Inr l \<Rightarrow>
                       Inr \<lparr>soilMoisture = s,
                            light = l,
                            receivedAt =
                              (if reading_timestamp reading = [] then None
                               else Some (Date_parse rt (reading_timestamp reading))),
                            ext_deviceId =
                              (if deviceId reading = [] then None else Some (deviceId reading)),
                            isESP32Online = (deviceStatus response = ''Connected'')\<rparr>)))
      else Inl (Raised (ESP32ParseError (error_or_default (response_error response)))))"

text \<open>
  What the two awaited promises of \<open>fetchSensorData\<close> can settle with. \<open>fetch\<close>
  rejects with an error of some name (\<open>AbortError\<close> when its signal is aborted,
  \<open>TypeError\<close> on a network failure) or resolves with a response;
  \<open>response.json()\<close> rejects (a body that is not JSON, or an abort while it is read)
  or resolves with the parsed body.
\<close>

record Response =
  ok :: bool
  status :: nat
  statusText :: string

datatype fetch_outcome = FetchRejects string | FetchResolves Response

datatype json_outcome = JsonRejects | JsonResolves BackendAPIResponse

fun fetchSensorData_catch :: "ESP32Config \<Rightarrow> thrown \<Rightarrow> ESP32Error" where
  "fetchSensorData_catch cfg (Native name) =
     (if name = ''AbortError'' then ESP32TimeoutError (timeout cfg)
      else ESP32ConnectionError ''Failed to connect to backend API'')"
| "fetchSensorData_catch cfg (Raised (ESP32ConnectionError m)) = ESP32ConnectionError m"
| "fetchSensorData_catch cfg (Raised (ESP32ParseError m)) = ESP32ParseError m"
| "fetchSensorData_catch cfg (Raised (ESP32TimeoutError t)) =
     ESP32ConnectionError ''Failed to connect to backend API''"

definition parseResponse :: "json_outcome \<Rightarrow> ESP32Error + BackendAPIResponse" where
  "parseResponse jo =
     (case jo of
        JsonRejects \<Rightarrow> Inl (ESP32ParseError ''Invalid JSON response from backend'')
      | JsonResolves data \<Rightarrow> Inr data)"

text \<open>
  \<open>fetchSensorData\<close> up to its second \<open>await\<close>: \<open>Some e\<close> when the call ends here,
  rejecting with \<open>e\<close>; \<open>None\<close> when it goes on to read the body.
\<close>

definition fetchSensorData_afterFetch :: "ESP32Config \<Rightarrow> fetch_outcome \<Rightarrow> ESP32Error option" where
  "fetchSensorData_afterFetch cfg fo =
     (case fo of
        FetchRejects name \<Rightarrow> Some (fetchSensorData_catch cfg (Native name))
      | FetchResolves response \<Rightarrow>
          if ok response then None
          else Some (fetchSensorData_catch cfg
                 (Raised (ESP32ConnectionError
                    (''HTTP '' @ decimal (status response) @ '': '' @ statusText response)))))"

text \<open>The rest of \<open>fetchSensorData\<close>, from the settling of \<open>response.json()\<close>.\<close>

definition fetchSensorData_afterJson ::
  "ESP32Config \<Rightarrow> runtime \<Rightarrow> json_outcome \<Rightarrow> ESP32Error + ExtendedSensorData" where
  "fetchSensorData_afterJson cfg rt jo =
     (case parseResponse jo of
        Inl e \<Rightarrow> Inl (fetchSensorData_catch cfg (Raised e))
      | Inr data \<Rightarrow>
          (case transformBackendData rt data of
             Inl t \<Rightarrow> Inl (fetchSensorData_catch cfg t)
           | Inr x \<Rightarrow> Inr x))"

text \<open>A whole call that is not superseded: both outcomes given.\<close>

definition fetchSensorData ::
  "ESP32Config \<Rightarrow> runtime \<Rightarrow> fetch_outcome \<Rightarrow> json_outcome \<Rightarrow> ESP32Error + ExtendedSensorData" where
  "fetchSensorData cfg rt fo jo =
     (case fetchSensorData_afterFetch cfg fo of
        Some e \<Rightarrow> Inl e
      | None \<Rightarrow> fetchSensorData_afterJson cfg rt jo)"

section \<open>services/mockDataService.ts\<close>

definition DEFAULT_MOCK_DATA :: SensorData where
  "DEFAULT_MOCK_DATA = \<lparr>soilMoisture = Fin 1200, light = Fin 3200\<rparr>"

definition ADC_MIN :: jsnum where
  "ADC_MIN = Fin 0"

definition ADC_MAX :: jsnum where
  "ADC_MAX = Fin 4095"

definition clampToADCRange :: "jsnum \<Rightarrow> jsnum" where
  "clampToADCRange v = Math_max ADC_MIN (Math_min ADC_MAX v)"

definition formatTimeString :: "runtime \<Rightarrow> Date \<Rightarrow> string" where
  "formatTimeString rt date = toLocaleTimeString rt date"

text \<open>
  The two generators draw from \<open>Math.random()\<close> and compute in double arithmetic with
  \<open>Math.sin\<close> and \<open>Math.cos\<close>. The doubles that reach \<open>Math.floor\<close> are parameters
  of the model: the pair \<open>(800 + Math.random() * 2000, 2000 + Math.random() * 2000)\<close>
  for \<open>generateRandomSensorData\<close>, and for \<open>generatePatternedSensorData\<close> a function
  giving \<open>(soilBase + soilWave, lightBase + lightWave)\<close> at each index.
\<close>

definition generateRandomSensorData :: "jsnum \<times> jsnum \<Rightarrow> SensorData" where
  "generateRandomSensorData raw =
     \<lparr>soilMoisture = clampToADCRange (Math_floor (fst raw)),
      light = clampToADCRange (Math_floor (snd raw))\<rparr>"

definition generatePatternedSensorData :: "(nat \<Rightarrow> jsnum \<times> jsnum) \<Rightarrow> nat \<Rightarrow> SensorData" where
  "generatePatternedSensorData raw index =
     \<lparr>soilMoisture = clampToADCRange (Math_floor (fst (raw index))),
      light = clampToADCRange (Math_floor (snd (raw index)))\<rparr>"

text \<open>
  The loop \<open>for (let i = points - 1; i >= 0; i--)\<close> of \<open>generateMockHistoryData\<close>,
  by recursion on the number of indices left: the list for \<open>Suc i\<close> starts with the point
  of index \<open>i\<close>. \<open>now\<close> is \<open>Date.now()\<close>, an integer count of milliseconds.
\<close>

primrec generateMockHistoryData ::
  "runtime \<Rightarrow> int \<Rightarrow> (nat \<Rightarrow> jsnum \<times> jsnum) \<Rightarrow> nat \<Rightarrow> nat \<Rightarrow> HistoryDataPoint list" where
  "generateMockHistoryData rt now raw intervalSeconds 0 = []"
| "generateMockHistoryData rt now raw intervalSeconds (Suc i) =
     (let ts = Fin (of_int (now - int i * int intervalSeconds * 1000));
          sensorData = generatePatternedSensorData raw i
      in \<lparr>soilMoisture = soilMoisture sensorData,
          light = light sensorData,
          time_str = formatTimeString rt (Date ts),
          timestamp = ts\<rparr>)
     # generateMockHistoryData rt now raw intervalSeconds i"

text \<open>
  \<open>createHistoryPoint(sensorData, timestamp?)\<close>: \<open>now\<close> is the \<open>new Date()\<close> taken
  when no timestamp is passed.
\<close>

definition createHistoryPoint ::
  "runtime \<Rightarrow> Date \<Rightarrow> SensorData \<Rightarrow> Date option \<Rightarrow> HistoryDataPoint" where
  "createHistoryPoint rt now sensorData ts =
     (let time = (case ts of None \<Rightarrow> now | Some d \<Rightarrow> d)
      in \<lparr>soilMoisture = soilMoisture sensorData,
          light = light sensorData,
          time_str = formatTimeString rt time,
          timestamp = getTime time\<rparr>)"

section \<open>hooks/useSensorData.ts\<close>

text \<open>
  The state of one mounted \<open>useSensorData\<close>: the three \<open>useState\<close> cells and the two
  refs.
\<close>

record hook_state =
  sensorData :: SensorData
  historyData :: "HistoryDataPoint list"
  connectionState :: ConnectionState
  isMountedRef :: bool
  initialFetchDone :: bool

definition initial_state :: hook_state where
  "initial_state =
     \<lparr>sensorData = DEFAULT_MOCK_DATA,
      historyData = [],
      connectionState =
        \<lparr>isConnected = False, lastUpdate = None, isChecking = True, error = None\<rparr>,
      isMountedRef = True,
      initialFetchDone = False\<rparr>"

text \<open>
  What a run of \<open>fetchData\<close> reads from outside the program when it resumes: the clock
  (\<open>new Date()\<close> and \<open>Date.now()\<close>, in milliseconds) and the doubles of the two mock
  generators.
\<close>

record ambient =
  clock :: int
  random_raw :: "jsnum \<times> jsnum"
  pattern_raw :: "nat \<Rightarrow> jsnum \<times> jsnum"

definition new_Date :: "ambient \<Rightarrow> Date" where
  "new_Date amb = Date (Fin (of_int (clock amb)))"

text \<open>
  \<open>array.slice(start)\<close>: a negative \<open>start\<close> counts from the end and stops at the
  first element, a positive one stops at the length.
\<close>

definition Array_slice :: "int \<Rightarrow> 'a list \<Rightarrow> 'a list" where
  "Array_slice start xs =
     (let len = int (length xs);
          k = (if start < 0 then max (len + start) 0 else min start len)
      in drop (nat k) xs)"

text \<open>\<open>addHistoryPoint\<close>, as the function it hands to \<open>setHistoryData\<close>.\<close>

definition addHistoryPoint ::
  "runtime \<Rightarrow> Date \<Rightarrow> SensorData \<Rightarrow> Date option \<Rightarrow> HistoryDataPoint list \<Rightarrow> HistoryDataPoint list" where
  "addHistoryPoint rt now data_in ts prev =
     (let newPoint = createHistoryPoint rt now data_in ts;
          updated = prev @ [newPoint]
      in Array_slice (- HISTORY_MAX_POINTS) updated)"

text \<open>
  A sequence of appends, each with the clock at its call, its reading and its timestamp.
\<close>

fun addHistoryPoints ::
  "runtime \<Rightarrow> HistoryDataPoint list \<Rightarrow> (Date \<times> SensorData \<times> Date option) list
     \<Rightarrow> HistoryDataPoint list" where
  "addHistoryPoints rt prev [] = prev"
| "addHistoryPoints rt prev ((now, data_in, ts) # ps) =
     addHistoryPoints rt (addHistoryPoint rt now data_in ts prev) ps"

text \<open>The point that one such append makes.\<close>

definition appended_point :: "runtime \<Rightarrow> Date \<times> SensorData \<times> Date option \<Rightarrow> HistoryDataPoint" where
  "appended_point rt p = (case p of (now, data_in, ts) \<Rightarrow> createHistoryPoint rt now data_in ts)"

text \<open>
  \<open>fetchData\<close> is an \<open>async\<close> function with one \<open>await\<close>. Its first part runs when it
  is called: the mounted check and the update of \<open>isChecking\<close> and \<open>error\<close>.
\<close>

definition fetchData_begin :: "hook_state \<Rightarrow> hook_state" where
  "fetchData_begin st =
     (if \<not> isMountedRef st then st
      else st\<lparr>connectionState := (connectionState st)\<lparr>isChecking := True, error := None\<rparr>\<rparr>)"

text \<open>
  The values \<open>newData\<close>, \<open>isESP32Online\<close> and \<open>receivedAt\<close> of the \<open>try\<close> block, in
  mock mode and from the service.
\<close>

definition fetchData_try_mock :: "ambient \<Rightarrow> SensorData \<times> bool \<times> Date option" where
  "fetchData_try_mock amb =
     (generateRandomSensorData (random_raw amb), True, Some (new_Date amb))"

definition fetchData_try_esp32 :: "ExtendedSensorData \<Rightarrow> SensorData \<times> bool \<times> Date option" where
  "fetchData_try_esp32 extendedData =
     (\<lparr>soilMoisture = soilMoisture extendedData, light = light extendedData\<rparr>,
      isESP32Online extendedData,
      receivedAt extendedData)"

text \<open>
  The rest of the \<open>try\<close> block and the last line of \<open>fetchData\<close>. The \<open>return\<close> of
  an unmounted hook leaves before \<open>initialFetchDone\<close> is set.
\<close>

definition fetchData_success ::
  "runtime \<Rightarrow> ambient \<Rightarrow> SensorData \<times> bool \<times> Date option \<Rightarrow> hook_state \<Rightarrow> hook_state" where
  "fetchData_success rt amb r st =
     (case r of (newData, online, recv) \<Rightarrow>
        if \<not> isMountedRef st then st
        else
          (let now = new_Date amb;
               stamp = (case recv of None \<Rightarrow> now | Some d \<Rightarrow> d)
           in st\<lparr>sensorData := newData,
                historyData := addHistoryPoint rt now newData (Some stamp) (historyData st),
                connectionState :=
                  \<lparr>isConnected = online,
                   lastUpdate = Some stamp,
                   isChecking = False,
                   error = (if online then None else Some ''ESP32 offline - no recent data'')\<rparr>,
                initialFetchDone := True\<rparr>))"

text \<open>
  The \<open>catch\<close> clause and the last line. \<open>captured\<close> is the \<open>connectionState\<close> of
  the render that created this \<open>fetchData\<close>: the clause reads \<open>lastUpdate\<close> from that
  constant of its closure, not from the current state. Every error that reaches the clause
  is an \<open>Error\<close>, so \<open>errorMessage\<close> is its message.
\<close>

definition fetchData_failure ::
  "runtime \<Rightarrow> ambient \<Rightarrow> ConnectionState \<Rightarrow> ESP32Error \<Rightarrow> hook_state \<Rightarrow> hook_state" where
  "fetchData_failure rt amb captured e st =
     (if \<not> isMountedRef st then st
      else
        (let errorMessage = message e;
             st1 = st\<lparr>connectionState :=
                        \<lparr>isConnected = False,
                         lastUpdate = lastUpdate captured,
                         isChecking = False,
                         error = Some errorMessage\<rparr>\<rparr>;
             st2 = (if \<not> initialFetchDone st1
                    then st1\<lparr>sensorData := DEFAULT_MOCK_DATA,
                             historyData :=
                               generateMockHistoryData rt (clock amb) (pattern_raw amb)
                                 (updateInterval (esp32_config APP_CONFIG)) 10\<rparr>
                    else st1)
         in st2\<lparr>initialFetchDone := True\<rparr>))"

text \<open>\<open>fetchData\<close> from the point where \<open>await esp32Service.fetchSensorData()\<close> settles.\<close>

definition fetchData_resume ::
  "runtime \<Rightarrow> ambient \<Rightarrow> ConnectionState \<Rightarrow> ESP32Error + ExtendedSensorData \<Rightarrow> hook_state \<Rightarrow> hook_state" where
  "fetchData_resume rt amb captured result st =
     (case result of
        Inl e \<Rightarrow> fetchData_failure rt amb captured e st
      | Inr extendedData \<Rightarrow> fetchData_success rt amb (fetchData_try_esp32 extendedData) st)"

text \<open>
  The \<open>fetchData\<close> that the mount effect calls and hands to \<open>setInterval\<close>. The effect
  has no dependencies, so it runs once, after the first render, and the callback it holds
  is the one of that render, whose \<open>connectionState\<close> is the initial one. \<open>refresh\<close>
  calls the callback of the latest render, which has captured the state of that render.
\<close>

definition mount_effect_fetchData :: ConnectionState where
  "mount_effect_fetchData = connectionState initial_state"

definition refresh_fetchData :: "hook_state \<Rightarrow> ConnectionState" where
  "refresh_fetchData st = connectionState st"

section \<open>The hook and the service on the event loop\<close>

text \<open>
  Everything runs on one thread; a run of \<open>fetchData\<close> gives the thread back only at
  its \<open>await\<close>, inside which the service awaits \<open>fetch\<close> and then \<open>response.json()\<close>.
  The state of the whole is the hook state and the call of the service that is in flight,
  if any, with the closure of the \<open>fetchData\<close> that waits for it and the promise it
  waits on. The service keeps one \<open>abortController\<close>: a new \<open>fetchSensorData\<close> aborts
  the one in flight, whose promise rejects, and the continuations of a rejected promise run
  before the thread takes the next event. So at most one call is in flight between events.
\<close>

datatype stage = AwaitingFetch | AwaitingJson

record system =
  hook :: hook_state
  pending :: "(ConnectionState \<times> stage) option"

definition initial_system :: system where
  "initial_system = \<lparr>hook = initial_state, pending = None\<rparr>"

text \<open>
  The events: a call of a \<open>fetchData\<close> callback (by the mount effect, the interval or
  \<open>refresh\<close>), given by the \<open>connectionState\<close> it has captured; the settling of the
  \<open>fetch\<close> in flight (the timeout timer aborting it is a rejection with
  \<open>AbortError\<close>); the settling of the body read; the cleanup of the effect.
\<close>

datatype event =
    Invoke ConnectionState
  | FetchSettles fetch_outcome
  | JsonSettles json_outcome
  | Unmount

text \<open>
  \<open>this.abort()\<close> at the start of \<open>fetchSensorData\<close>, seen from the call in flight:
  its awaited promise rejects, and the \<open>fetchData\<close> that waits for it resumes with the
  error that the service makes of the rejection.
\<close>

definition abort_pending ::
  "runtime \<Rightarrow> ambient \<Rightarrow> (ConnectionState \<times> stage) option \<Rightarrow> hook_state \<Rightarrow> hook_state" where
  "abort_pending rt amb p st =
     (case p of
        None \<Rightarrow> st
      | Some (captured, AwaitingFetch) \<Rightarrow>
          (case fetchSensorData_afterFetch ESP32_CONFIG (FetchRejects ''AbortError'') of
             None \<Rightarrow> st
           | Some e \<Rightarrow> fetchData_resume rt amb captured (Inl e) st)
      | Some (captured, AwaitingJson) \<Rightarrow>
          fetchData_resume rt amb captured
            (fetchSensorData_afterJson ESP32_CONFIG rt JsonRejects) st)"

fun step :: "runtime \<Rightarrow> ambient \<Rightarrow> system \<Rightarrow> event \<Rightarrow> system" where
  "step rt amb s (Invoke captured) =
     (if \<not> isMountedRef (hook s) then s
      else if DATA_SOURCE_MODE = mock
      then s\<lparr>hook := fetchData_success rt amb (fetchData_try_mock amb) (fetchData_begin (hook s))\<rparr>
      else \<lparr>hook = abort_pending rt amb (pending s) (fetchData_begin (hook s)),
            pending = Some (captured, AwaitingFetch)\<rparr>)"
| "step rt amb s (FetchSettles fo) =
     (case pending s of
        Some (captured, AwaitingFetch) \<Rightarrow>
          (case fetchSensorData_afterFetch ESP32_CONFIG fo of
             None \<Rightarrow> s\<lparr>pending := Some (captured, AwaitingJson)\<rparr>
           | Some e \<Rightarrow>
               \<lparr>hook = fetchData_resume rt amb captured (Inl e) (hook s), pending = None\<rparr>)
      | _ \<Rightarrow> s)"
| "step rt amb s (JsonSettles jo) =
     (case pending s of
        Some (captured, AwaitingJson) \<Rightarrow>
          \<lparr>hook = fetchData_resume rt amb captured
                    (fetchSensorData_afterJson ESP32_CONFIG rt jo) (hook s),
           pending = None\<rparr>
      | _ \<Rightarrow> s)"
| "step rt amb s Unmount = s\<lparr>hook := (hook s)\<lparr>isMountedRef := False\<rparr>\<rparr>"

text \<open>A run: the events in order, each with what it reads from outside.\<close>

fun run :: "runtime \<Rightarrow> system \<Rightarrow> (ambient \<times> event) list \<Rightarrow> system" where
  "run rt s [] = s"
| "run rt s (ae # rest) = run rt (step rt (fst ae) s (snd ae)) rest"

section \<open>services/webSocketService.ts: an incoming message\<close>

datatype WebSocketEventType = EvConnect | EvDisconnect | EvData | EvError

record WebSocketEvent =
  ev_type :: WebSocketEventType
  ev_data :: "jsvalue option"
  ev_error :: "string option"
  ev_timestamp :: int

text \<open>
  The read of a property named \<open>soilMoisture\<close> or \<open>light\<close>: \<open>None\<close> is the
  \<open>TypeError\<close> of a read on \<open>null\<close> or \<open>undefined\<close>; an object gives its member or
  \<open>undefined\<close>; a number, a string, a boolean or an array has no property of these two
  names.
\<close>

fun getprop :: "jsvalue \<Rightarrow> string \<Rightarrow> jsvalue option" where
  "getprop JUndefined k = None"
| "getprop JNull k = None"
| "getprop (JObject kvs) k =
     Some (case map_of (rev kvs) k of None \<Rightarrow> JUndefined | Some v \<Rightarrow> v)"
| "getprop v k = Some JUndefined"

text \<open>
  \<open>handleMessage(rawData)\<close>. \<open>parsed\<close> is the outcome of \<open>JSON.parse(rawData)\<close>,
  \<open>None\<close> when it throws; \<open>now\<close> is the clock. The result is the new
  \<open>_connectionState\<close> and the event handed to the listeners, if any: every \<open>throw\<close>
  inside the \<open>try\<close> ends in the \<open>catch\<close>, which only logs.
\<close>

definition handleMessage ::
  "int \<Rightarrow> jsvalue option \<Rightarrow> ConnectionState \<Rightarrow> ConnectionState \<times> WebSocketEvent option" where
  "handleMessage now parsed cs =
     (case parsed of
        None \<Rightarrow> (cs, None)
      | Some data_in \<Rightarrow>
          (case getprop data_in ''soilMoisture'' of
             None \<Rightarrow> (cs, None)
           | Some sm \<Rightarrow>
               if typeof sm \<noteq> ''number'' then (cs, None)
               else
                 (case getprop data_in ''light'' of
                    None \<Rightarrow> (cs, None)
                  | Some l \<Rightarrow>
                      if typeof l \<noteq> ''number'' then (cs, None)
                      else
                        (cs\<lparr>lastUpdate := Some (Date (Fin (of_int now)))\<rparr>,
                         Some \<lparr>ev_type = EvData,
                               ev_data = Some data_in,
                               ev_error = None,
                               ev_timestamp = now\<rparr>))))"

text \<open>
  A runtime and outside readings for the statements that need concrete ones; no result
  stated with them depends on the choice.
\<close>

definition sample_runtime :: runtime where
  "sample_runtime =
     \<lparr>Number_toString = (\<lambda>q. ''?''),
      Date_parse = (\<lambda>s. Date (Fin 1768381380102)),
      toLocaleTimeString = (\<lambda>d. ''09:03:00'')\<rparr>"

definition sample_reading :: "jsvalue \<Rightarrow> jsvalue \<Rightarrow> BackendLatestReading" where
  "sample_reading soil ldr =
     \<lparr>soilValue = soil,
      ldrValue = ldr,
      soilCondition = ''Okay'',
      lightCondition = ''Okay'',
      reading_timestamp = ''2026-01-14T09:03:00.102Z'',
      deviceId = ''ESP32_Plant_Monitor'',
      wifiRSSI = None,
      lastUpdated = ''2026-01-14T09:03:00.102Z''\<rparr>"

definition sample_response :: "string \<Rightarrow> jsvalue \<Rightarrow> jsvalue \<Rightarrow> BackendAPIResponse" where
  "sample_response device soil ldr =
     \<lparr>success = True,
      response_timestamp = ''2026-01-22T00:00:00.000Z'',
      count = Fin 50,
      deviceStatus = device,
      timeSinceLastReading = Some (Fin 45),
      latest = Some (sample_reading soil ldr),
      response_error = None\<rparr>"

definition http_ok :: Response where
  "http_ok = \<lparr>ok = True, status = 200, statusText = ''OK''\<rparr>"

definition sample_ambient :: ambient where
  "sample_ambient =
     \<lparr>clock = 1768381385000,
      random_raw = (Fin 1000, Fin 3000),
      pattern_raw = (\<lambda>i. (Fin 1000, Fin 3000))\<rparr>"

text \<open>
  A first cycle that succeeds, with the device online, and the state it leaves.
\<close>

definition first_cycle_succeeds :: "(ambient \<times> event) list" where
  "first_cycle_succeeds =
     [(sample_ambient, Invoke mount_effect_fetchData),
      (sample_ambient, FetchSettles (FetchResolves http_ok)),
      (sample_ambient,
       JsonSettles (JsonResolves
         (sample_response ''Connected'' (JNumber (Fin 2067)) (JNumber (Fin 2858)))))]"

definition connected_system :: system where
  "connected_system = run sample_runtime initial_system first_cycle_succeeds"

text \<open>The \<open>_connectionState\<close> a \<open>WebSocketService\<close> is constructed with.\<close>

definition WebSocketService_connectionState :: ConnectionState where
  "WebSocketService_connectionState =
     \<lparr>isConnected = False, lastUpdate = None, isChecking = False, error = None\<rparr>"

text \<open>
  A hook state that no cycle has written to: the reading and the history of the first
  render.
\<close>

definition pristine :: "hook_state \<Rightarrow> bool" where
  "pristine st = (sensorData st = DEFAULT_MOCK_DATA \<and> historyData st = [])"

section \<open>Numbers and the validation of a field\<close>

lemma decimal_15000: "decimal 15000 = ''15000''"
  by (simp add: decimal.simps digit_def)

lemma Math_min_Fin: "Math_min (Fin a) (Fin b) = Fin (min a b)"
  by (simp add: Math_min_def min_def)

lemma Math_max_Fin: "Math_max (Fin a) (Fin b) = Fin (max a b)"
  by (simp add: Math_max_def max_def)

lemma floor_half_of_int: "\<lfloor>(of_int v :: rat) + 1 / 2\<rfloor> = v"
  by linarith

lemma clamp_of_int: "max 0 (min 4095 (of_int k :: rat)) = of_int (max 0 (min 4095 k))"
  by (simp add: max_def min_def)

lemma validateADCValue_Fin:
  "validateADCValue rt (JNumber (Fin q)) field = Inr (Fin (of_int (max 0 (min 4095 \<lfloor>q + 1 / 2\<rfloor>))))"
  by (simp add: validateADCValue_def Math_max_Fin Math_min_Fin clamp_of_int)

lemma validateADCValue_PosInf: "validateADCValue rt (JNumber PosInf) field = Inr (Fin 4095)"
  by (simp add: validateADCValue_def Math_max_def Math_min_def)

lemma validateADCValue_NegInf: "validateADCValue rt (JNumber NegInf) field = Inr (Fin 0)"
  by (simp add: validateADCValue_def Math_max_def Math_min_def)

lemma validateADCValue_NaN:
  "validateADCValue rt (JNumber NaN) field =
     Inl (Raised (ESP32ParseError (''Invalid '' @ field @ '' value: NaN'')))"
  by (simp add: validateADCValue_def invalid_value_def)

lemma validateADCValue_not_number:
  "typeof v \<noteq> ''number'' \<Longrightarrow> validateADCValue rt v field = Inl (invalid_value rt v field)"
  by (cases v) (simp_all add: validateADCValue_def)

lemma validateADCValue_rejected:
  "typeof v \<noteq> ''number'' \<or> v = JNumber NaN \<Longrightarrow>
   validateADCValue rt v field = Inl (invalid_value rt v field)"
  by (cases v) (auto simp: validateADCValue_def)

lemma validateADCValue_of_int:
  "validateADCValue rt (JNumber (Fin (of_int v))) field = Inr (Fin (of_int (max 0 (min 4095 v))))"
  by (simp only: validateADCValue_Fin floor_half_of_int)

lemma validateADCValue_range:
  assumes "validateADCValue rt v field = Inr r"
  shows "\<exists>k. 0 \<le> k \<and> k \<le> 4095 \<and> r = Fin (of_int k)"
proof (cases v)
  case (JNumber n)
  show ?thesis
  proof (cases n)
    case (Fin q)
    with JNumber assms have "r = Fin (of_int (max 0 (min 4095 \<lfloor>q + 1 / 2\<rfloor>)))"
      by (simp add: validateADCValue_Fin)
    moreover have "0 \<le> max 0 (min 4095 \<lfloor>q + 1 / 2\<rfloor>)" "max 0 (min 4095 \<lfloor>q + 1 / 2\<rfloor>) \<le> 4095"
      by simp_all
    ultimately show ?thesis by blast
  next
    case NaN
    with JNumber assms show ?thesis by (simp add: validateADCValue_NaN)
  next
    case PosInf
    with JNumber assms have "r = Fin (of_int 4095)" by (simp add: validateADCValue_PosInf)
    then show ?thesis by (intro exI[of _ 4095]) simp
  next
    case NegInf
    with JNumber assms have "r = Fin (of_int 0)" by (simp add: validateADCValue_NegInf)
    then show ?thesis by (intro exI[of _ 0]) simp
  qed
qed (use assms in \<open>simp_all add: validateADCValue_def\<close>)

lemma validateADCValue_accepted:
  "a \<noteq> NaN \<Longrightarrow>
   validateADCValue rt (JNumber a) field =
     Inr (case a of
            Fin q \<Rightarrow> Fin (of_int (max 0 (min 4095 \<lfloor>q + 1 / 2\<rfloor>)))
          | NaN \<Rightarrow> NaN
          | PosInf \<Rightarrow> Fin 4095
          | NegInf \<Rightarrow> Fin 0)"
  by (cases a)
     (simp_all add: validateADCValue_Fin validateADCValue_PosInf validateADCValue_NegInf)

lemma validate_2067 [simp]:
  "validateADCValue rt (JNumber (Fin 2067)) field = Inr (Fin 2067)"
  using validateADCValue_of_int [of rt 2067 field] by simp

lemma validate_2858 [simp]:
  "validateADCValue rt (JNumber (Fin 2858)) field = Inr (Fin 2858)"
  using validateADCValue_of_int [of rt 2858 field] by simp

lemma floor_5000_half: "\<lfloor>(5000::rat) + 1 / 2\<rfloor> = 5000"
  using floor_half_of_int [of 5000] by simp

lemma floor_minus_10_half: "\<lfloor>(- 10::rat) + 1 / 2\<rfloor> = - 10"
  using floor_half_of_int [of "- 10"] by simp

text \<open>
  Claim C10. \<open>validateADCValue\<close> is the identity on the integers of the range: for
  every integer \<open>v\<close> with \<open>0 \<le> v \<le> 4095\<close> it returns \<open>v\<close> and throws nothing. It is
  idempotent: whatever input it accepts, with result \<open>r\<close>, it accepts \<open>r\<close> and returns
  \<open>r\<close> again, under any field name.
\<close>

theorem validateADCValue_identity_idempotent:
  "(0 \<le> v \<and> v \<le> 4095 \<longrightarrow>
      validateADCValue rt (JNumber (Fin (of_int v))) field = Inr (Fin (of_int v)))
   \<and> (validateADCValue rt x field = Inr r \<longrightarrow>
      validateADCValue rt (JNumber r) field' = Inr r)"
proof (intro conjI impI)
  assume "0 \<le> v \<and> v \<le> 4095"
  then have "max 0 (min 4095 v) = v" by simp
  then show "validateADCValue rt (JNumber (Fin (of_int v))) field = Inr (Fin (of_int v))"
    by (simp only: validateADCValue_of_int)
next
  assume "validateADCValue rt x field = Inr r"
  then obtain k where k: "0 \<le> k" "k \<le> 4095" "r = Fin (of_int k)"
    using validateADCValue_range by blast
  then have "max 0 (min 4095 k) = k" by simp
  with k show "validateADCValue rt (JNumber r) field' = Inr r"
    by (simp only: validateADCValue_of_int)
qed

text \<open>
  The claim at \<open>v = 2067\<close>, and at the accepted input \<open>5000\<close>, whose result
  \<open>4095\<close> a second validation returns unchanged.
\<close>

theorem validateADCValue_identity_idempotent_witness:
  "(0::int) \<le> 2067 \<and> (2067::int) \<le> 4095
   \<and> validateADCValue sample_runtime (JNumber (Fin (of_int 2067))) ''soilValue'' = Inr (Fin (of_int 2067))
   \<and> validateADCValue sample_runtime (JNumber (Fin 5000)) ''soilValue'' = Inr (Fin 4095)
   \<and> validateADCValue sample_runtime (JNumber (Fin 4095)) ''soilValue'' = Inr (Fin 4095)"
  using validateADCValue_identity_idempotent [of 2067 sample_runtime "''soilValue''" "JNumber (Fin 5000)" "Fin 4095" "''soilValue''"]
        validateADCValue_of_int [of sample_runtime 5000 "''soilValue''"]
  by simp

section \<open>A field that is not a finite number\<close>

lemma catch_invalid_value:
  "fetchSensorData_catch cfg (invalid_value rt v field) =
     (case ToString rt v of
        None \<Rightarrow> ESP32ConnectionError ''Failed to connect to backend API''
      | Some s \<Rightarrow> ESP32ParseError (''Invalid '' @ field @ '' value: '' @ s))"
  by (simp add: invalid_value_def split: option.splits)

lemma fetchSensorData_afterJson_resolves:
  "fetchSensorData_afterJson cfg rt (JsonResolves response) =
     (case transformBackendData rt response of
        Inl t \<Rightarrow> Inl (fetchSensorData_catch cfg t)
      | Inr x \<Rightarrow> Inr x)"
  by (simp add: fetchSensorData_afterJson_def parseResponse_def)

lemma fetchSensorData_resolves:
  "ok http \<Longrightarrow>
   fetchSensorData cfg rt (FetchResolves http) (JsonResolves body) =
     (case transformBackendData rt body of
        Inl t \<Rightarrow> Inl (fetchSensorData_catch cfg t)
      | Inr x \<Rightarrow> Inr x)"
  by (simp add: fetchSensorData_def fetchSensorData_afterFetch_def
      fetchSensorData_afterJson_resolves)

lemma fetchSensorData_ok:
  "fetchSensorData cfg rt (FetchResolves http_ok) (JsonResolves response) =
     (case transformBackendData rt response of
        Inl t \<Rightarrow> Inl (fetchSensorData_catch cfg t)
      | Inr x \<Rightarrow> Inr x)"
  by (simp add: fetchSensorData_resolves http_ok_def)

lemma transformBackendData_soil_rejected:
  assumes "success body" and "latest body = Some reading"
    and "typeof (soilValue reading) \<noteq> ''number'' \<or> soilValue reading = JNumber NaN"
  shows "transformBackendData rt body =
     Inl (invalid_value rt (soilValue reading) ''soilValue'')"
  using assms(1,2) validateADCValue_rejected [OF assms(3), of rt "''soilValue''"]
  by (simp add: transformBackendData_def)

lemma transformBackendData_ldr_rejected:
  assumes "success body" and "latest body = Some reading"
    and "validateADCValue rt (soilValue reading) ''soilValue'' = Inr s"
    and "typeof (ldrValue reading) \<noteq> ''number'' \<or> ldrValue reading = JNumber NaN"
  shows "transformBackendData rt body =
     Inl (invalid_value rt (ldrValue reading) ''ldrValue'')"
  using assms(1,2,3) validateADCValue_rejected [OF assms(4), of rt "''ldrValue''"]
  by (simp add: transformBackendData_def)

lemma transformBackendData_valid:
  assumes "success body" and "latest body = Some reading"
    and "validateADCValue rt (soilValue reading) ''soilValue'' = Inr s"
    and "validateADCValue rt (ldrValue reading) ''ldrValue'' = Inr l"
  shows "transformBackendData rt body =
     Inr \<lparr>soilMoisture = s, light = l,
          receivedAt = (if reading_timestamp reading = [] then None
                        else Some (Date_parse rt (reading_timestamp reading))),
          ext_deviceId = (if deviceId reading = [] then None else Some (deviceId reading)),
          isESP32Online = (deviceStatus body = ''Connected'')\<rparr>"
  using assms by (simp add: transformBackendData_def)

text \<open>
  Claim C3 as stated fails: a \<open>soilValue\<close> that is not a finite number does not
  always make the fetch fail. The JSON number \<open>1e999\<close> parses to \<open>Infinity\<close>, which
  passes the guard of \<open>validateADCValue\<close>, and the fetch succeeds with a soil moisture
  of 4095.
\<close>

theorem fetchSensorData_accepts_Infinity:
  "fetchSensorData ESP32_CONFIG sample_runtime (FetchResolves http_ok)
     (JsonResolves (sample_response ''Connected'' (JNumber PosInf) (JNumber (Fin 2858))))
   = Inr \<lparr>soilMoisture = Fin 4095,
          light = Fin 2858,
          receivedAt = Some (Date (Fin 1768381380102)),
          ext_deviceId = Some ''ESP32_Plant_Monitor'',
          isESP32Online = True\<rparr>"
  using validateADCValue_of_int [of sample_runtime 2858 "''ldrValue''"]
  by (simp add: fetchSensorData_ok transformBackendData_def sample_response_def
      sample_reading_def validateADCValue_PosInf sample_runtime_def)

text \<open>
  Claim C3, amended. Take a response with \<open>ok\<close> whose body has \<open>success\<close> and a
  reading. If \<open>soilValue\<close> is not of type number, or is \<open>NaN\<close>, the fetch fails, and
  whenever that value has a string conversion (\<open>s\<close>) the failure is a \<open>ParseError\<close>
  whose message names \<open>soilValue\<close>. The same holds of \<open>ldrValue\<close> once
  \<open>soilValue\<close> is accepted. Every other number is accepted: a finite one is rounded to
  the nearest integer and clamped to \<open>[0, 4095]\<close>, \<open>Infinity\<close> gives 4095 and
  \<open>-Infinity\<close> gives 0, and the fetch succeeds with these two values. In particular a
  \<open>soilValue\<close> of 5000 gives 4095 and a \<open>ldrValue\<close> of -10 gives 0.
\<close>

theorem fetchSensorData_validates_fields:
  assumes "ok http" and "success body" and "latest body = Some reading"
  shows
    "((typeof (soilValue reading) \<noteq> ''number'' \<or> soilValue reading = JNumber NaN) \<longrightarrow>
        (\<exists>e. fetchSensorData cfg rt (FetchResolves http) (JsonResolves body) = Inl e)
        \<and> (ToString rt (soilValue reading) = Some s \<longrightarrow>
             fetchSensorData cfg rt (FetchResolves http) (JsonResolves body) =
               Inl (ESP32ParseError (''Invalid soilValue value: '' @ s))))
   \<and> (soilValue reading = JNumber a \<and> a \<noteq> NaN
        \<and> (typeof (ldrValue reading) \<noteq> ''number'' \<or> ldrValue reading = JNumber NaN) \<longrightarrow>
        (\<exists>e. fetchSensorData cfg rt (FetchResolves http) (JsonResolves body) = Inl e)
        \<and> (ToString rt (ldrValue reading) = Some s \<longrightarrow>
             fetchSensorData cfg rt (FetchResolves http) (JsonResolves body) =
               Inl (ESP32ParseError (''Invalid ldrValue value: '' @ s))))
   \<and> (soilValue reading = JNumber a \<and> a \<noteq> NaN
        \<and> ldrValue reading = JNumber b \<and> b \<noteq> NaN \<longrightarrow>
        (\<exists>x. fetchSensorData cfg rt (FetchResolves http) (JsonResolves body) = Inr x
           \<and> soilMoisture x =
               (case a of
                  Fin q \<Rightarrow> Fin (of_int (max 0 (min 4095 \<lfloor>q + 1 / 2\<rfloor>)))
                | NaN \<Rightarrow> NaN
                | PosInf \<Rightarrow> Fin 4095
                | NegInf \<Rightarrow> Fin 0)
           \<and> light x =
               (case b of
                  Fin q \<Rightarrow> Fin (of_int (max 0 (min 4095 \<lfloor>q + 1 / 2\<rfloor>)))
                | NaN \<Rightarrow> NaN
                | PosInf \<Rightarrow> Fin 4095
                | NegInf \<Rightarrow> Fin 0)))
   \<and> validateADCValue rt (JNumber (Fin 5000)) ''soilValue'' = Inr (Fin 4095)
   \<and> validateADCValue rt (JNumber (Fin (- 10))) ''ldrValue'' = Inr (Fin 0)"
proof (intro conjI impI)
  assume bad: "typeof (soilValue reading) \<noteq> ''number'' \<or> soilValue reading = JNumber NaN"
  have f: "fetchSensorData cfg rt (FetchResolves http) (JsonResolves body) =
      Inl (fetchSensorData_catch cfg (invalid_value rt (soilValue reading) ''soilValue''))"
    using assms bad by (simp add: fetchSensorData_resolves transformBackendData_soil_rejected)
  then show "\<exists>e. fetchSensorData cfg rt (FetchResolves http) (JsonResolves body) = Inl e"
    by blast
  assume "ToString rt (soilValue reading) = Some s"
  then show "fetchSensorData cfg rt (FetchResolves http) (JsonResolves body) =
      Inl (ESP32ParseError (''Invalid soilValue value: '' @ s))"
    by (simp add: f catch_invalid_value)
next
  assume h: "soilValue reading = JNumber a \<and> a \<noteq> NaN
      \<and> (typeof (ldrValue reading) \<noteq> ''number'' \<or> ldrValue reading = JNumber NaN)"
  then obtain v where v: "validateADCValue rt (soilValue reading) ''soilValue'' = Inr v"
    using validateADCValue_accepted [of a rt "''soilValue''"] by auto
  have f: "fetchSensorData cfg rt (FetchResolves http) (JsonResolves body) =
      Inl (fetchSensorData_catch cfg (invalid_value rt (ldrValue reading) ''ldrValue''))"
    using assms h v
    by (simp add: fetchSensorData_resolves transformBackendData_ldr_rejected)
  then show "\<exists>e. fetchSensorData cfg rt (FetchResolves http) (JsonResolves body) = Inl e"
    by blast
  assume "ToString rt (ldrValue reading) = Some s"
  then show "fetchSensorData cfg rt (FetchResolves http) (JsonResolves body) =
      Inl (ESP32ParseError (''Invalid ldrValue value: '' @ s))"
    by (simp add: f catch_invalid_value)
next
  assume h: "soilValue reading = JNumber a \<and> a \<noteq> NaN
      \<and> ldrValue reading = JNumber b \<and> b \<noteq> NaN"
  then show "\<exists>x. fetchSensorData cfg rt (FetchResolves http) (JsonResolves body) = Inr x
           \<and> soilMoisture x =
               (case a of
                  Fin q \<Rightarrow> Fin (of_int (max 0 (min 4095 \<lfloor>q + 1 / 2\<rfloor>)))
                | NaN \<Rightarrow> NaN
                | PosInf \<Rightarrow> Fin 4095
                | NegInf \<Rightarrow> Fin 0)
           \<and> light x =
               (case b of
                  Fin q \<Rightarrow> Fin (of_int (max 0 (min 4095 \<lfloor>q + 1 / 2\<rfloor>)))
                | NaN \<Rightarrow> NaN
                | PosInf \<Rightarrow> Fin 4095
                | NegInf \<Rightarrow> Fin 0)"
    using assms(1) h
      transformBackendData_valid [OF assms(2,3), of rt _ _]
      validateADCValue_accepted [of a rt "''soilValue''"]
      validateADCValue_accepted [of b rt "''ldrValue''"]
    by (simp add: fetchSensorData_resolves)
next
  show "validateADCValue rt (JNumber (Fin 5000)) ''soilValue'' = Inr (Fin 4095)"
    using validateADCValue_of_int [of rt 5000 "''soilValue''"] by simp
next
  show "validateADCValue rt (JNumber (Fin (- 10))) ''ldrValue'' = Inr (Fin 0)"
    using validateADCValue_of_int [of rt "- 10" "''ldrValue''"] by simp
qed

text \<open>
  The amended claim at a \<open>soilValue\<close> that is the string \<open>"wet"\<close>, rejected with a
  message naming the field, and at the pair 5000 and -10, accepted as 4095 and 0.
\<close>

theorem fetchSensorData_validates_fields_witness:
  "ok http_ok
   \<and> success (sample_response ''Connected'' (JString ''wet'') (JNumber (Fin 2858)))
   \<and> latest (sample_response ''Connected'' (JString ''wet'') (JNumber (Fin 2858)))
       = Some (sample_reading (JString ''wet'') (JNumber (Fin 2858)))
   \<and> typeof (JString ''wet'') \<noteq> ''number''
   \<and> ToString sample_runtime (JString ''wet'') = Some ''wet''
   \<and> fetchSensorData ESP32_CONFIG sample_runtime (FetchResolves http_ok)
        (JsonResolves (sample_response ''Connected'' (JString ''wet'') (JNumber (Fin 2858))))
       = Inl (ESP32ParseError ''Invalid soilValue value: wet'')
   \<and> (\<exists>x. fetchSensorData ESP32_CONFIG sample_runtime (FetchResolves http_ok)
          (JsonResolves
             (sample_response ''Connected'' (JNumber (Fin 5000)) (JNumber (Fin (- 10)))))
        = Inr x \<and> soilMoisture x = Fin 4095 \<and> light x = Fin 0)"
  using fetchSensorData_validates_fields [of http_ok "sample_response ''Connected'' (JString ''wet'') (JNumber (Fin 2858))"
               "sample_reading (JString ''wet'') (JNumber (Fin 2858))"
               ESP32_CONFIG sample_runtime "''wet''" "Fin 0" "Fin 0"]
        fetchSensorData_validates_fields [of http_ok "sample_response ''Connected'' (JNumber (Fin 5000)) (JNumber (Fin (- 10)))"
               "sample_reading (JNumber (Fin 5000)) (JNumber (Fin (- 10)))"
               ESP32_CONFIG sample_runtime "''wet''" "Fin 5000" "Fin (- 10)"]
  by (simp add: http_ok_def sample_response_def sample_reading_def
      floor_5000_half floor_minus_10_half)

text \<open>
  A value without a string conversion: the \<open>TypeError\<close> of the template literal
  leaves \<open>validateADCValue\<close> in place of the \<open>ParseError\<close>, and the \<open>catch\<close>
  clause of \<open>fetchSensorData\<close> makes a \<open>ConnectionError\<close> of it.
\<close>

lemma unprintable_soilValue_fails_as_ConnectionError:
  "fetchSensorData ESP32_CONFIG sample_runtime (FetchResolves http_ok)
     (JsonResolves (sample_response ''Connected''
        (JObject [(''toString'', JNumber (Fin 1))]) (JNumber (Fin 2858))))
   = Inl (ESP32ConnectionError ''Failed to connect to backend API'')"
  by (simp add: fetchSensorData_ok transformBackendData_def sample_response_def
      sample_reading_def validateADCValue_def invalid_value_def)

section \<open>The two classifiers\<close>

lemma getSoilMoistureCondition_Fin:
  "getSoilMoistureCondition (Fin q) = (if q \<le> 1500 then Good else if q \<le> 2500 then Okay else Bad)"
  by (simp add: getSoilMoistureCondition_def SOIL_MOISTURE_THRESHOLDS_def js_le_def not_less)

lemma getLightCondition_Fin:
  "getLightCondition (Fin q) = (if q < 1500 then Bad else if q < 3000 then Okay else Good)"
  by (simp add: getLightCondition_def LIGHT_THRESHOLDS_def)

text \<open>
  Claim C4. For every integer \<open>v\<close> of \<open>[0, 4095]\<close>, \<open>getSoilMoistureCondition\<close>
  returns \<open>Good\<close> exactly when \<open>v \<le> 1500\<close>, \<open>Okay\<close> exactly when
  \<open>1500 < v \<le> 2500\<close>, and \<open>Bad\<close> exactly when \<open>2500 < v\<close>: each of the two
  boundaries belongs to the better class.
\<close>

theorem getSoilMoistureCondition_thresholds:
  assumes "0 \<le> v" and "v \<le> 4095"
  shows "(getSoilMoistureCondition (Fin (of_int v)) = Good \<longleftrightarrow> v \<le> 1500)
       \<and> (getSoilMoistureCondition (Fin (of_int v)) = Okay \<longleftrightarrow> 1500 < v \<and> v \<le> 2500)
       \<and> (getSoilMoistureCondition (Fin (of_int v)) = Bad \<longleftrightarrow> 2500 < v)"
proof -
  have a: "(of_int v \<le> (1500::rat)) = (v \<le> 1500)" by linarith
  have b: "(of_int v \<le> (2500::rat)) = (v \<le> 2500)" by linarith
  show ?thesis unfolding getSoilMoistureCondition_Fin a b by auto
qed

text \<open>
  The claim at the two boundaries \<open>1500\<close> and \<open>2500\<close> and at \<open>2501\<close>.
\<close>

theorem getSoilMoistureCondition_thresholds_witness:
  "(0::int) \<le> 1500 \<and> (1500::int) \<le> 4095
   \<and> getSoilMoistureCondition (Fin 1500) = Good
   \<and> getSoilMoistureCondition (Fin 2500) = Okay
   \<and> getSoilMoistureCondition (Fin 2501) = Bad"
  using getSoilMoistureCondition_thresholds [of 1500] getSoilMoistureCondition_thresholds [of 2500] getSoilMoistureCondition_thresholds [of 2501] by simp

text \<open>
  Claim C5. For every integer \<open>v\<close> of \<open>[0, 4095]\<close>, \<open>getLightCondition\<close> returns
  \<open>Bad\<close> exactly when \<open>v < 1500\<close>, \<open>Okay\<close> exactly when \<open>1500 \<le> v < 3000\<close>, and
  \<open>Good\<close> exactly when \<open>3000 \<le> v\<close>: each of the two boundaries belongs to the
  better class, the comparison being strict where the one of the soil classifier is not.
\<close>

theorem getLightCondition_thresholds:
  assumes "0 \<le> v" and "v \<le> 4095"
  shows "(getLightCondition (Fin (of_int v)) = Bad \<longleftrightarrow> v < 1500)
       \<and> (getLightCondition (Fin (of_int v)) = Okay \<longleftrightarrow> 1500 \<le> v \<and> v < 3000)
       \<and> (getLightCondition (Fin (of_int v)) = Good \<longleftrightarrow> 3000 \<le> v)"
proof -
  have a: "(of_int v < (1500::rat)) = (v < 1500)" by linarith
  have b: "(of_int v < (3000::rat)) = (v < 3000)" by linarith
  show ?thesis unfolding getLightCondition_Fin a b by auto
qed

text \<open>
  The claim at \<open>1499\<close> and at the two boundaries \<open>1500\<close> and \<open>3000\<close>.
\<close>

theorem getLightCondition_thresholds_witness:
  "(0::int) \<le> 1500 \<and> (1500::int) \<le> 4095
   \<and> getLightCondition (Fin 1499) = Bad
   \<and> getLightCondition (Fin 1500) = Okay
   \<and> getLightCondition (Fin 3000) = Good"
  using getLightCondition_thresholds [of 1500] getLightCondition_thresholds [of 1499] getLightCondition_thresholds [of 3000] by simp

section \<open>The rolling history\<close>

lemma Array_slice_last:
  "Array_slice (- HISTORY_MAX_POINTS) xs = drop (length xs - 30) xs"
proof -
  have "nat (max (int (length xs) - 30) 0) = length xs - 30" by simp
  then show ?thesis by (simp add: Array_slice_def HISTORY_MAX_POINTS_def)
qed

lemma addHistoryPoint_eq:
  "addHistoryPoint rt now d t prev =
     drop (Suc (length prev) - 30) (prev @ [createHistoryPoint rt now d t])"
  by (simp add: addHistoryPoint_def Array_slice_last)

lemma last_addHistoryPoint:
  "last (addHistoryPoint rt now d t prev) = createHistoryPoint rt now d t"
  by (simp add: addHistoryPoint_eq)

lemma drop_last_append:
  "drop (length (drop (length zs - n) zs) + length ys - n) (drop (length zs - n) zs @ ys)
     = drop (length zs + length ys - n) (zs @ ys)"
proof (cases "n \<le> length zs")
  case True
  then show ?thesis by (simp add: drop_append add.commute)
next
  case False
  then show ?thesis by simp
qed

lemma addHistoryPoints_eq:
  "ps \<noteq> [] \<Longrightarrow>
   addHistoryPoints rt h ps =
     drop (length h + length ps - 30) (h @ map (appended_point rt) ps)"
proof (induction ps arbitrary: h)
  case Nil
  then show ?case by simp
next
  case (Cons p ps)
  obtain now d t where p: "p = (now, d, t)" by (cases p)
  show ?case
  proof (cases "ps = []")
    case True
    then show ?thesis by (simp add: p addHistoryPoint_eq appended_point_def)
  next
    case False
    let ?zs = "h @ [appended_point rt p]"
    have h': "addHistoryPoint rt now d t h = drop (length ?zs - 30) ?zs"
      by (simp add: addHistoryPoint_eq appended_point_def p)
    have "addHistoryPoints rt h (p # ps)
            = drop (length (drop (length ?zs - 30) ?zs) + length (map (appended_point rt) ps) - 30)
                (drop (length ?zs - 30) ?zs @ map (appended_point rt) ps)"
      using Cons.IH [OF False, of "addHistoryPoint rt now d t h"]
      unfolding p addHistoryPoints.simps h' [unfolded p] length_map .
    also have "\<dots> = drop (length ?zs + length (map (appended_point rt) ps) - 30)
                (?zs @ map (appended_point rt) ps)"
      by (rule drop_last_append)
    finally show ?thesis by simp
  qed
qed

text \<open>
  Claim C6. After one append or more the history holds at most \<open>HISTORY_MAX_POINTS\<close>
  points, whatever it held before. After more than \<open>HISTORY_MAX_POINTS = 30\<close> appends it
  holds exactly 30 points, and they are the points of the last 30 appends, in the order of
  the appends.
\<close>

theorem addHistoryPoints_keeps_last:
  "(ps \<noteq> [] \<longrightarrow> length (addHistoryPoints rt h ps) \<le> nat HISTORY_MAX_POINTS)
   \<and> (nat HISTORY_MAX_POINTS < length ps \<longrightarrow>
        length (addHistoryPoints rt h ps) = nat HISTORY_MAX_POINTS
        \<and> addHistoryPoints rt h ps =
            map (appended_point rt) (drop (length ps - nat HISTORY_MAX_POINTS) ps))"
proof (intro conjI impI)
  assume "ps \<noteq> []"
  then show "length (addHistoryPoints rt h ps) \<le> nat HISTORY_MAX_POINTS"
    by (simp add: addHistoryPoints_eq HISTORY_MAX_POINTS_def)
next
  assume big: "nat HISTORY_MAX_POINTS < length ps"
  then have ne: "ps \<noteq> []" by auto
  from big have len: "30 < length ps" by (simp add: HISTORY_MAX_POINTS_def)
  then show "length (addHistoryPoints rt h ps) = nat HISTORY_MAX_POINTS"
    using ne by (simp add: addHistoryPoints_eq HISTORY_MAX_POINTS_def)
  have "length h + length ps - 30 - length h = length ps - 30" by simp
  with len show "addHistoryPoints rt h ps =
      map (appended_point rt) (drop (length ps - nat HISTORY_MAX_POINTS) ps)"
    using ne by (simp add: addHistoryPoints_eq HISTORY_MAX_POINTS_def drop_map)
qed

text \<open>
  The claim for 31 appends of the default reading to the empty history.
\<close>

theorem addHistoryPoints_keeps_last_witness:
  "replicate 31 (Date (Fin 0), DEFAULT_MOCK_DATA, None) \<noteq> []
   \<and> nat HISTORY_MAX_POINTS < length (replicate 31 (Date (Fin 0), DEFAULT_MOCK_DATA, None :: Date option))
   \<and> length (addHistoryPoints sample_runtime []
        (replicate 31 (Date (Fin 0), DEFAULT_MOCK_DATA, None))) = 30
   \<and> addHistoryPoints sample_runtime [] (replicate 31 (Date (Fin 0), DEFAULT_MOCK_DATA, None))
       = replicate 30 (appended_point sample_runtime (Date (Fin 0), DEFAULT_MOCK_DATA, None))"
  using addHistoryPoints_keeps_last [of "replicate 31 (Date (Fin 0), DEFAULT_MOCK_DATA, None)" sample_runtime "[]"]
  by (simp add: HISTORY_MAX_POINTS_def)

section \<open>One cycle of the hook\<close>

lemma length_generateMockHistoryData:
  "length (generateMockHistoryData rt now raw intervalSeconds n) = n"
  by (induction n) (simp_all add: Let_def)

lemma fetchData_failure_mounted:
  assumes "isMountedRef st"
  shows "fetchData_failure rt amb captured e st =
     st\<lparr>connectionState :=
           \<lparr>isConnected = False, lastUpdate = lastUpdate captured,
            isChecking = False, error = Some (message e)\<rparr>,
        sensorData := (if initialFetchDone st then sensorData st else DEFAULT_MOCK_DATA),
        historyData :=
          (if initialFetchDone st then historyData st
           else generateMockHistoryData rt (clock amb) (pattern_raw amb)
                  (updateInterval (esp32_config APP_CONFIG)) 10),
        initialFetchDone := True\<rparr>"
  using assms by (simp add: fetchData_failure_def Let_def)

lemma fetchData_failure_unmounted:
  "\<not> isMountedRef st \<Longrightarrow> fetchData_failure rt amb captured e st = st"
  by (simp add: fetchData_failure_def)

lemma fetchData_success_mounted:
  assumes "isMountedRef st"
  shows "fetchData_success rt amb (newData, online, recv) st =
     st\<lparr>sensorData := newData,
        historyData :=
          addHistoryPoint rt (new_Date amb) newData
            (Some (case recv of None \<Rightarrow> new_Date amb | Some d \<Rightarrow> d)) (historyData st),
        connectionState :=
          \<lparr>isConnected = online,
           lastUpdate = Some (case recv of None \<Rightarrow> new_Date amb | Some d \<Rightarrow> d),
           isChecking = False,
           error = (if online then None else Some ''ESP32 offline - no recent data'')\<rparr>,
        initialFetchDone := True\<rparr>"
  using assms by (simp add: fetchData_success_def Let_def)

lemma fetchData_resume_unmounted:
  "\<not> isMountedRef st \<Longrightarrow> fetchData_resume rt amb captured result st = st"
  by (cases result)
     (simp_all add: fetchData_resume_def fetchData_failure_def fetchData_success_def
        split: prod.splits)

lemma fetchData_resume_sets_flag:
  "isMountedRef st \<Longrightarrow> initialFetchDone (fetchData_resume rt amb captured result st)"
  by (cases result)
     (simp_all add: fetchData_resume_def fetchData_failure_mounted fetchData_success_def
        Let_def split: prod.splits)

lemma fetchData_resume_flag_or_same:
  "initialFetchDone (fetchData_resume rt amb captured result st)
   \<or> fetchData_resume rt amb captured result st = st"
  using fetchData_resume_unmounted fetchData_resume_sets_flag by (cases "isMountedRef st") auto

lemma isMounted_begin: "isMountedRef (fetchData_begin st) = isMountedRef st"
  by (simp add: fetchData_begin_def)

lemma initialFetchDone_begin: "initialFetchDone (fetchData_begin st) = initialFetchDone st"
  by (simp add: fetchData_begin_def)

lemma pristine_begin: "pristine (fetchData_begin st) = pristine st"
  by (simp add: pristine_def fetchData_begin_def)

lemma initial_mounted: "isMountedRef initial_state"
  by (simp add: initial_state_def)

subsection \<open>The steps of the event loop\<close>

lemma afterFetch_network_failure:
  "fetchSensorData_afterFetch cfg (FetchRejects ''TypeError'') =
     Some (ESP32ConnectionError ''Failed to connect to backend API'')"
  by (simp add: fetchSensorData_afterFetch_def)

lemma afterFetch_abort:
  "fetchSensorData_afterFetch cfg (FetchRejects ''AbortError'') =
     Some (ESP32TimeoutError (timeout cfg))"
  by (simp add: fetchSensorData_afterFetch_def)

lemma afterFetch_http_ok: "fetchSensorData_afterFetch cfg (FetchResolves http_ok) = None"
  by (simp add: fetchSensorData_afterFetch_def http_ok_def)

lemma decimal_timeout: "decimal (timeout ESP32_CONFIG) = ''15000''"
  by (simp add: ESP32_CONFIG_def decimal_15000)

lemma step_Invoke_idle:
  "isMountedRef (hook s) \<Longrightarrow> pending s = None \<Longrightarrow>
   step rt amb s (Invoke captured) =
     \<lparr>hook = fetchData_begin (hook s), pending = Some (captured, AwaitingFetch)\<rparr>"
  by (simp add: DATA_SOURCE_MODE_def abort_pending_def)

lemma step_FetchSettles_error:
  "pending s = Some (captured, AwaitingFetch) \<Longrightarrow>
   fetchSensorData_afterFetch ESP32_CONFIG fo = Some e \<Longrightarrow>
   step rt amb s (FetchSettles fo) =
     \<lparr>hook = fetchData_resume rt amb captured (Inl e) (hook s), pending = None\<rparr>"
  by simp

lemma step_FetchSettles_ok:
  "pending s = Some (captured, AwaitingFetch) \<Longrightarrow>
   fetchSensorData_afterFetch ESP32_CONFIG fo = None \<Longrightarrow>
   step rt amb s (FetchSettles fo) = s\<lparr>pending := Some (captured, AwaitingJson)\<rparr>"
  by simp

lemma step_JsonSettles:
  "pending s = Some (captured, AwaitingJson) \<Longrightarrow>
   step rt amb s (JsonSettles jo) =
     \<lparr>hook = fetchData_resume rt amb captured
               (fetchSensorData_afterJson ESP32_CONFIG rt jo) (hook s),
      pending = None\<rparr>"
  by simp

lemma step_Invoke_pending_fetch:
  "isMountedRef (hook s) \<Longrightarrow> pending s = Some (c0, AwaitingFetch) \<Longrightarrow>
   step rt amb s (Invoke captured) =
     \<lparr>hook = fetchData_resume rt amb c0 (Inl (ESP32TimeoutError (timeout ESP32_CONFIG)))
               (fetchData_begin (hook s)),
      pending = Some (captured, AwaitingFetch)\<rparr>"
  by (simp add: DATA_SOURCE_MODE_def abort_pending_def afterFetch_abort)

lemma step_Invoke_pending_json:
  "isMountedRef (hook s) \<Longrightarrow> pending s = Some (c0, AwaitingJson) \<Longrightarrow>
   step rt amb s (Invoke captured) =
     \<lparr>hook = fetchData_resume rt amb c0
               (Inl (ESP32ParseError ''Invalid JSON response from backend''))
               (fetchData_begin (hook s)),
      pending = Some (captured, AwaitingFetch)\<rparr>"
  by (simp add: DATA_SOURCE_MODE_def abort_pending_def fetchSensorData_afterJson_def
      parseResponse_def)

lemma at_most_one_in_flight_is_current:
  "isMountedRef (hook s) \<Longrightarrow> pending (step rt amb s (Invoke captured)) = Some (captured, AwaitingFetch)"
  by (simp add: step.simps DATA_SOURCE_MODE_def)

declare step.simps [simp del]

lemma first_Invoke:
  "step rt amb initial_system (Invoke captured) =
     \<lparr>hook = fetchData_begin initial_state, pending = Some (captured, AwaitingFetch)\<rparr>"
  using step_Invoke_idle [of initial_system rt amb captured]
  by (simp add: initial_system_def initial_mounted)

text \<open>
  In a run from the initial state, \<open>initialFetchDone\<close> is unset only as long as no
  cycle has written to the reading or the history: the cycle that resumes with the flag
  unset is the first one to settle.
\<close>

lemma step_keeps_untouched:
  assumes "initialFetchDone (hook s) \<or> pristine (hook s)"
  shows "initialFetchDone (hook (step rt amb s ev)) \<or> pristine (hook (step rt amb s ev))"
proof (cases ev)
  case (Invoke captured)
  show ?thesis
  proof (cases "isMountedRef (hook s)")
    case False
    with Invoke assms show ?thesis by (simp add: step.simps)
  next
    case True
    have b: "initialFetchDone (fetchData_begin (hook s)) \<or> pristine (fetchData_begin (hook s))"
      using assms by (simp add: pristine_begin initialFetchDone_begin)
    show ?thesis
    proof (cases "pending s")
      case None
      with True Invoke b show ?thesis by (simp add: step_Invoke_idle)
    next
      case (Some p)
      obtain c0 stg where p: "p = (c0, stg)" by (cases p)
      show ?thesis
      proof (cases stg)
        case AwaitingFetch
        with True Invoke Some p b show ?thesis
          using fetchData_resume_flag_or_same
            [of rt amb c0 "Inl (ESP32TimeoutError (timeout ESP32_CONFIG))" "fetchData_begin (hook s)"]
          by (auto simp: step_Invoke_pending_fetch)
      next
        case AwaitingJson
        with True Invoke Some p b show ?thesis
          using fetchData_resume_flag_or_same
            [of rt amb c0 "Inl (ESP32ParseError ''Invalid JSON response from backend'')"
                "fetchData_begin (hook s)"]
          by (auto simp: step_Invoke_pending_json)
      qed
    qed
  qed
next
  case (FetchSettles fo)
  show ?thesis
  proof (cases "pending s")
    case None
    with FetchSettles assms show ?thesis by (simp add: step.simps)
  next
    case (Some p)
    obtain c0 stg where p: "p = (c0, stg)" by (cases p)
    show ?thesis
    proof (cases stg)
      case AwaitingJson
      with FetchSettles Some p assms show ?thesis by (simp add: step.simps)
    next
      case AwaitingFetch
      show ?thesis
      proof (cases "fetchSensorData_afterFetch ESP32_CONFIG fo")
        case None
        with FetchSettles Some p AwaitingFetch assms show ?thesis
          by (simp add: step_FetchSettles_ok)
      next
        case (Some e)
        with FetchSettles \<open>pending s = Some p\<close> p AwaitingFetch assms show ?thesis
          using fetchData_resume_flag_or_same [of rt amb c0 "Inl e" "hook s"]
          by (auto simp: step_FetchSettles_error)
      qed
    qed
  qed
next
  case (JsonSettles jo)
  show ?thesis
  proof (cases "pending s")
    case None
    with JsonSettles assms show ?thesis by (simp add: step.simps)
  next
    case (Some p)
    obtain c0 stg where p: "p = (c0, stg)" by (cases p)
    show ?thesis
    proof (cases stg)
      case AwaitingFetch
      with JsonSettles Some p assms show ?thesis by (simp add: step.simps)
    next
      case AwaitingJson
      with JsonSettles Some p assms show ?thesis
        using fetchData_resume_flag_or_same
          [of rt amb c0 "fetchSensorData_afterJson ESP32_CONFIG rt jo" "hook s"]
        by (auto simp: step_JsonSettles)
    qed
  qed
next
  case Unmount
  with assms show ?thesis by (simp add: step.simps pristine_def)
qed

lemma run_keeps_untouched:
  "initialFetchDone (hook s) \<or> pristine (hook s) \<Longrightarrow>
   initialFetchDone (hook (run rt s evs)) \<or> pristine (hook (run rt s evs))"
proof (induction evs arbitrary: s)
  case Nil
  then show ?case by simp
next
  case (Cons ae evs)
  then show ?case using step_keeps_untouched by simp
qed

lemma unset_flag_means_pristine:
  "\<not> initialFetchDone (hook (run rt initial_system evs)) \<Longrightarrow>
   pristine (hook (run rt initial_system evs))"
  using run_keeps_untouched [of initial_system rt evs]
  by (auto simp: initial_system_def initial_state_def pristine_def)

subsection \<open>The first cycle fails\<close>

text \<open>
  Claim C7. When a cycle fails in a mounted hook, \<open>isConnected\<close> is false and
  \<open>error\<close> is the message of the failure. If no cycle has settled before
  (\<open>initialFetchDone\<close> is unset), the reading becomes \<open>DEFAULT_MOCK_DATA\<close> and the
  history becomes the 10 points of \<open>generateMockHistoryData(10, 5)\<close>. If one has, the
  reading and the history stay as they are: the fallback fires on the first cycle only,
  since every cycle that settles, whatever its result, sets \<open>initialFetchDone\<close>.
\<close>

theorem first_failure_seeds_mock_data:
  assumes "isMountedRef st"
  shows "isConnected (connectionState (fetchData_resume rt amb captured (Inl e) st)) = False
     \<and> error (connectionState (fetchData_resume rt amb captured (Inl e) st)) = Some (message e)
     \<and> (if initialFetchDone st
         then sensorData (fetchData_resume rt amb captured (Inl e) st) = sensorData st
            \<and> historyData (fetchData_resume rt amb captured (Inl e) st) = historyData st
         else sensorData (fetchData_resume rt amb captured (Inl e) st) = DEFAULT_MOCK_DATA
            \<and> length (historyData (fetchData_resume rt amb captured (Inl e) st)) = 10
            \<and> historyData (fetchData_resume rt amb captured (Inl e) st) =
                generateMockHistoryData rt (clock amb) (pattern_raw amb) 5 10)
     \<and> initialFetchDone (fetchData_resume rt amb captured result st)"
proof -
  have "initialFetchDone (fetchData_resume rt amb captured result st)"
    using assms
    by (cases result)
       (simp_all add: fetchData_resume_def fetchData_failure_mounted fetchData_success_def
          Let_def split: prod.splits)
  then show ?thesis
    using assms
    by (simp add: fetchData_resume_def fetchData_failure_mounted length_generateMockHistoryData
        APP_CONFIG_def ESP32_CONFIG_def)
qed

text \<open>
  The claim for the first cycle of a run, failing on the network.
\<close>

theorem first_failure_seeds_mock_data_witness:
  "isMountedRef (fetchData_begin initial_state)
   \<and> sensorData (hook (run sample_runtime initial_system
         [(sample_ambient, Invoke mount_effect_fetchData),
          (sample_ambient, FetchSettles (FetchRejects ''TypeError''))])) = DEFAULT_MOCK_DATA
   \<and> length (historyData (hook (run sample_runtime initial_system
         [(sample_ambient, Invoke mount_effect_fetchData),
          (sample_ambient, FetchSettles (FetchRejects ''TypeError''))]))) = 10
   \<and> connectionState (hook (run sample_runtime initial_system
         [(sample_ambient, Invoke mount_effect_fetchData),
          (sample_ambient, FetchSettles (FetchRejects ''TypeError''))])) =
        \<lparr>isConnected = False, lastUpdate = None, isChecking = False,
         error = Some ''Failed to connect to backend API''\<rparr>"
proof -
  have m: "isMountedRef (fetchData_begin initial_state)"
    by (simp add: isMounted_begin initial_mounted)
  have f: "\<not> initialFetchDone (fetchData_begin initial_state)"
    by (simp add: fetchData_begin_def initial_state_def)
  have r: "hook (run sample_runtime initial_system
         [(sample_ambient, Invoke mount_effect_fetchData),
          (sample_ambient, FetchSettles (FetchRejects ''TypeError''))])
      = fetchData_resume sample_runtime sample_ambient mount_effect_fetchData
          (Inl (ESP32ConnectionError ''Failed to connect to backend API''))
          (fetchData_begin initial_state)"
    by (simp add: first_Invoke step_FetchSettles_error afterFetch_network_failure)
  have c: "connectionState (fetchData_resume sample_runtime sample_ambient mount_effect_fetchData
          (Inl (ESP32ConnectionError ''Failed to connect to backend API''))
          (fetchData_begin initial_state))
      = \<lparr>isConnected = False, lastUpdate = None, isChecking = False,
         error = Some ''Failed to connect to backend API''\<rparr>"
    using m by (simp add: fetchData_resume_def fetchData_failure_mounted
        mount_effect_fetchData_def initial_state_def)
  show ?thesis
    using first_failure_seeds_mock_data [OF m, of sample_runtime sample_ambient mount_effect_fetchData
        "ESP32ConnectionError ''Failed to connect to backend API''"] f m
    by (simp only: r c) (simp add: length_generateMockHistoryData)
qed

subsection \<open>The device is offline\<close>

text \<open>
  Claim C8. When the request succeeds (a response with \<open>ok\<close>, a body with
  \<open>success\<close>, a reading and two valid values) and \<open>deviceStatus\<close> is
  \<open>"Disconnected"\<close>, the cycle leaves \<open>isConnected\<close> false and \<open>error\<close> set to the
  offline message, and still takes the reading, appends its point to the history and sets
  \<open>lastUpdate\<close> to the timestamp of the reading (to the clock when the reading has
  none).
\<close>

theorem offline_device_still_updates:
  assumes "isMountedRef st" and "ok http"
    and "success body" and "latest body = Some reading"
    and "validateADCValue rt (soilValue reading) ''soilValue'' = Inr s"
    and "validateADCValue rt (ldrValue reading) ''ldrValue'' = Inr l"
    and "deviceStatus body = ''Disconnected''"
  shows
    "let st' = fetchData_resume rt amb captured
                 (fetchSensorData ESP32_CONFIG rt (FetchResolves http) (JsonResolves body)) st;
         stamp = (if reading_timestamp reading = [] then new_Date amb
                  else Date_parse rt (reading_timestamp reading))
     in connectionState st' =
          \<lparr>isConnected = False, lastUpdate = Some stamp, isChecking = False,
           error = Some ''ESP32 offline - no recent data''\<rparr>
      \<and> sensorData st' = \<lparr>soilMoisture = s, light = l\<rparr>
      \<and> historyData st' =
          addHistoryPoint rt (new_Date amb) \<lparr>soilMoisture = s, light = l\<rparr> (Some stamp)
            (historyData st)
      \<and> last (historyData st') =
          \<lparr>soilMoisture = s, light = l,
           time_str = toLocaleTimeString rt stamp, timestamp = getTime stamp\<rparr>"
proof -
  have t: "fetchSensorData ESP32_CONFIG rt (FetchResolves http) (JsonResolves body) =
     Inr \<lparr>soilMoisture = s, light = l,
          receivedAt = (if reading_timestamp reading = [] then None
                        else Some (Date_parse rt (reading_timestamp reading))),
          ext_deviceId = (if deviceId reading = [] then None else Some (deviceId reading)),
          isESP32Online = False\<rparr>"
    using assms(2-7) by (simp add: fetchSensorData_resolves transformBackendData_valid)
  show ?thesis
    using assms(1)
    by (simp add: t fetchData_resume_def fetchData_try_esp32_def fetchData_success_mounted
        last_addHistoryPoint createHistoryPoint_def formatTimeString_def Let_def)
qed

text \<open>
  The claim for a first cycle whose response reports the values 2067 and 2858 of an
  offline device.
\<close>

theorem offline_device_still_updates_witness:
  "isMountedRef (fetchData_begin initial_state) \<and> ok http_ok
   \<and> success (sample_response ''Disconnected'' (JNumber (Fin 2067)) (JNumber (Fin 2858)))
   \<and> deviceStatus (sample_response ''Disconnected'' (JNumber (Fin 2067)) (JNumber (Fin 2858)))
       = ''Disconnected''
   \<and> connectionState
        (fetchData_resume sample_runtime sample_ambient mount_effect_fetchData
           (fetchSensorData ESP32_CONFIG sample_runtime (FetchResolves http_ok)
              (JsonResolves
                 (sample_response ''Disconnected'' (JNumber (Fin 2067)) (JNumber (Fin 2858)))))
           (fetchData_begin initial_state))
       = \<lparr>isConnected = False, lastUpdate = Some (Date (Fin 1768381380102)),
          isChecking = False, error = Some ''ESP32 offline - no recent data''\<rparr>
   \<and> sensorData
        (fetchData_resume sample_runtime sample_ambient mount_effect_fetchData
           (fetchSensorData ESP32_CONFIG sample_runtime (FetchResolves http_ok)
              (JsonResolves
                 (sample_response ''Disconnected'' (JNumber (Fin 2067)) (JNumber (Fin 2858)))))
           (fetchData_begin initial_state))
       = \<lparr>soilMoisture = Fin 2067, light = Fin 2858\<rparr>"
proof -
  have m: "isMountedRef (fetchData_begin initial_state)"
    by (simp add: isMounted_begin initial_mounted)
  show ?thesis
    using offline_device_still_updates [OF m, of http_ok
        "sample_response ''Disconnected'' (JNumber (Fin 2067)) (JNumber (Fin 2858))"
        "sample_reading (JNumber (Fin 2067)) (JNumber (Fin 2858))"
        sample_runtime "Fin 2067" "Fin 2858" sample_ambient mount_effect_fetchData] m
    by (simp add: http_ok_def sample_response_def sample_reading_def sample_runtime_def Let_def)
qed

section \<open>Cycles in a run\<close>

lemma sample_transform:
  "transformBackendData sample_runtime
     (sample_response device (JNumber (Fin 2067)) (JNumber (Fin 2858))) =
   Inr \<lparr>soilMoisture = Fin 2067, light = Fin 2858,
        receivedAt = Some (Date (Fin 1768381380102)),
        ext_deviceId = Some ''ESP32_Plant_Monitor'',
        isESP32Online = (device = ''Connected'')\<rparr>"
  by (simp add: transformBackendData_def sample_response_def sample_reading_def
      sample_runtime_def)

lemma sample_afterJson:
  "fetchSensorData_afterJson cfg sample_runtime
     (JsonResolves (sample_response device (JNumber (Fin 2067)) (JNumber (Fin 2858)))) =
   Inr \<lparr>soilMoisture = Fin 2067, light = Fin 2858,
        receivedAt = Some (Date (Fin 1768381380102)),
        ext_deviceId = Some ''ESP32_Plant_Monitor'',
        isESP32Online = (device = ''Connected'')\<rparr>"
  by (simp only: fetchSensorData_afterJson_resolves sample_transform) simp

lemma connected_system_eq:
  "connected_system =
     \<lparr>hook =
        \<lparr>sensorData = \<lparr>soilMoisture = Fin 2067, light = Fin 2858\<rparr>,
         historyData =
           [\<lparr>soilMoisture = Fin 2067, light = Fin 2858,
             time_str = ''09:03:00'', timestamp = Fin 1768381380102\<rparr>],
         connectionState =
           \<lparr>isConnected = True, lastUpdate = Some (Date (Fin 1768381380102)),
            isChecking = False, error = None\<rparr>,
         isMountedRef = True,
         initialFetchDone = True\<rparr>,
      pending = None\<rparr>"
proof -
  have b: "isMountedRef (fetchData_begin initial_state)"
    by (simp add: isMounted_begin initial_mounted)
  have "connected_system =
      \<lparr>hook = fetchData_resume sample_runtime sample_ambient mount_effect_fetchData
                (Inr \<lparr>soilMoisture = Fin 2067, light = Fin 2858,
                      receivedAt = Some (Date (Fin 1768381380102)),
                      ext_deviceId = Some ''ESP32_Plant_Monitor'',
                      isESP32Online = True\<rparr>)
                (fetchData_begin initial_state),
       pending = None\<rparr>"
    by (simp add: connected_system_def first_cycle_succeeds_def first_Invoke
        step_FetchSettles_ok afterFetch_http_ok step_JsonSettles sample_afterJson)
  also have "\<dots> = \<lparr>hook =
        \<lparr>sensorData = \<lparr>soilMoisture = Fin 2067, light = Fin 2858\<rparr>,
         historyData =
           [\<lparr>soilMoisture = Fin 2067, light = Fin 2858,
             time_str = ''09:03:00'', timestamp = Fin 1768381380102\<rparr>],
         connectionState =
           \<lparr>isConnected = True, lastUpdate = Some (Date (Fin 1768381380102)),
            isChecking = False, error = None\<rparr>,
         isMountedRef = True,
         initialFetchDone = True\<rparr>,
      pending = None\<rparr>"
    using b
    by (simp add: fetchData_resume_def fetchData_try_esp32_def
        fetchData_success_mounted addHistoryPoint_eq createHistoryPoint_def
        formatTimeString_def sample_runtime_def fetchData_begin_def initial_state_def)
  finally show ?thesis .
qed

lemma failure_writes_captured_lastUpdate:
  "isMountedRef st \<Longrightarrow>
   lastUpdate (connectionState (fetchData_resume rt amb captured (Inl e) st)) =
     lastUpdate captured"
  by (simp add: fetchData_resume_def fetchData_failure_mounted)

lemma superseded_cycle_is_applied:
  "isMountedRef (hook s) \<Longrightarrow> pending s = Some (c0, AwaitingFetch) \<Longrightarrow>
   connectionState (hook (step rt amb s (Invoke captured))) =
     \<lparr>isConnected = False, lastUpdate = lastUpdate c0, isChecking = False,
      error = Some ''Request timed out after 15000ms''\<rparr>"
  by (simp add: step_Invoke_pending_fetch fetchData_resume_def fetchData_failure_mounted
      isMounted_begin decimal_timeout)

text \<open>
  Claim C2 says that a failing cycle after the first leaves the reading and
  \<open>lastUpdate\<close> as they were. The reading is kept, but \<open>lastUpdate\<close> is not: after a
  first cycle that has set \<open>lastUpdate\<close> to the timestamp of its reading, a cycle
  started by the interval and failing on the network sets it back to \<open>null\<close>. The
  callback that the interval holds is the one of the first render, and the \<open>catch\<close>
  clause writes the \<open>lastUpdate\<close> that this callback has captured.
\<close>

theorem periodic_failure_resets_lastUpdate:
  "lastUpdate (connectionState (hook connected_system)) = Some (Date (Fin 1768381380102))
   \<and> connectionState (hook (run sample_runtime connected_system
        [(sample_ambient, Invoke mount_effect_fetchData),
         (sample_ambient, FetchSettles (FetchRejects ''TypeError''))]))
      = \<lparr>isConnected = False, lastUpdate = None, isChecking = False,
         error = Some ''Failed to connect to backend API''\<rparr>
   \<and> sensorData (hook (run sample_runtime connected_system
        [(sample_ambient, Invoke mount_effect_fetchData),
         (sample_ambient, FetchSettles (FetchRejects ''TypeError''))]))
      = sensorData (hook connected_system)"
  by (simp add: connected_system_eq step_Invoke_idle step_FetchSettles_error
      afterFetch_network_failure fetchData_resume_def fetchData_failure_mounted
      fetchData_begin_def mount_effect_fetchData_def initial_state_def)

text \<open>
  Claim C1 says that when a second fetch is dispatched while the first is in flight, the
  first cycle changes nothing in the state. It does: from the connected state, two calls of
  \<open>refresh\<close> in a row leave the second request in flight and the state already
  changed by the first cycle, to \<open>isConnected = false\<close> with the error of a timeout.
  The second call aborts the first request, the service reports the abort as an
  \<open>ESP32TimeoutError\<close>, and the \<open>catch\<close> clause of the first cycle applies it.
\<close>

theorem superseded_fetch_mutates_state:
  "connectionState (hook connected_system)
      = \<lparr>isConnected = True, lastUpdate = Some (Date (Fin 1768381380102)),
         isChecking = False, error = None\<rparr>
   \<and> run sample_runtime connected_system
        [(sample_ambient, Invoke (refresh_fetchData (hook connected_system))),
         (sample_ambient, Invoke (refresh_fetchData (hook connected_system)))]
      = \<lparr>hook = (hook connected_system)
                 \<lparr>connectionState :=
                    \<lparr>isConnected = False, lastUpdate = Some (Date (Fin 1768381380102)),
                     isChecking = False,
                     error = Some ''Request timed out after 15000ms''\<rparr>\<rparr>,
         pending = Some (refresh_fetchData (hook connected_system), AwaitingFetch)\<rparr>"
  by (simp add: connected_system_eq step_Invoke_idle step_Invoke_pending_fetch
      fetchData_resume_def fetchData_failure_mounted decimal_timeout
      fetchData_begin_def refresh_fetchData_def)

section \<open>A message on the WebSocket\<close>

text \<open>
  Claim C9 as stated fails: a payload with \<open>soilMoisture = 5000\<close> and
  \<open>light = -10\<close> reaches the listeners as it is, neither value clamped.
\<close>

theorem handleMessage_no_clamp:
  "snd (handleMessage 1768381385000
          (Some (JObject [(''soilMoisture'', JNumber (Fin 5000)),
                          (''light'', JNumber (Fin (- 10)))]))
          WebSocketService_connectionState)
   = Some \<lparr>ev_type = EvData,
            ev_data = Some (JObject [(''soilMoisture'', JNumber (Fin 5000)),
                                     (''light'', JNumber (Fin (- 10)))]),
            ev_error = None,
            ev_timestamp = 1768381385000\<rparr>"
  by (simp add: handleMessage_def)

text \<open>
  Claim C9, amended. \<open>handleMessage\<close> checks only that \<open>soilMoisture\<close> and
  \<open>light\<close> are of type number. A payload that passes is handed to the listeners
  unchanged, with no rounding and no clamping, and \<open>lastUpdate\<close> is set to the clock;
  for any other payload, and for a message that is not JSON, nothing is delivered and the
  state is unchanged.
\<close>

theorem handleMessage_delivers_unchanged:
  "(getprop d ''soilMoisture'' = Some (JNumber a) \<and> getprop d ''light'' = Some (JNumber b) \<longrightarrow>
      handleMessage now (Some d) cs =
        (cs\<lparr>lastUpdate := Some (Date (Fin (of_int now)))\<rparr>,
         Some \<lparr>ev_type = EvData, ev_data = Some d, ev_error = None, ev_timestamp = now\<rparr>))
   \<and> ((\<forall>n. getprop d ''soilMoisture'' \<noteq> Some (JNumber n))
        \<or> (\<forall>n. getprop d ''light'' \<noteq> Some (JNumber n)) \<longrightarrow>
      handleMessage now (Some d) cs = (cs, None))
   \<and> handleMessage now None cs = (cs, None)"
proof (intro conjI impI)
  assume "getprop d ''soilMoisture'' = Some (JNumber a) \<and> getprop d ''light'' = Some (JNumber b)"
  then show "handleMessage now (Some d) cs =
        (cs\<lparr>lastUpdate := Some (Date (Fin (of_int now)))\<rparr>,
         Some \<lparr>ev_type = EvData, ev_data = Some d, ev_error = None, ev_timestamp = now\<rparr>)"
    by (simp add: handleMessage_def)
next
  have t: "typeof v = ''number'' \<longleftrightarrow> (\<exists>n. v = JNumber n)" for v
    by (cases v) simp_all
  assume "(\<forall>n. getprop d ''soilMoisture'' \<noteq> Some (JNumber n))
        \<or> (\<forall>n. getprop d ''light'' \<noteq> Some (JNumber n))"
  then show "handleMessage now (Some d) cs = (cs, None)"
    by (auto simp: handleMessage_def t split: option.splits)
next
  show "handleMessage now None cs = (cs, None)"
    by (simp add: handleMessage_def)
qed

text \<open>
  The amended claim at a payload with \<open>soilMoisture = 5000.5\<close> and \<open>light = -10\<close>,
  delivered as it is, and at one whose \<open>soilMoisture\<close> is a string, dropped.
\<close>

theorem handleMessage_delivers_unchanged_witness:
  "getprop (JObject [(''soilMoisture'', JNumber (Fin (10001 / 2))), (''light'', JNumber (Fin (- 10)))])
      ''soilMoisture'' = Some (JNumber (Fin (10001 / 2)))
   \<and> getprop (JObject [(''soilMoisture'', JNumber (Fin (10001 / 2))), (''light'', JNumber (Fin (- 10)))])
      ''light'' = Some (JNumber (Fin (- 10)))
   \<and> handleMessage 1768381385000
        (Some (JObject [(''soilMoisture'', JNumber (Fin (10001 / 2))), (''light'', JNumber (Fin (- 10)))]))
        WebSocketService_connectionState
      = (WebSocketService_connectionState\<lparr>lastUpdate := Some (Date (Fin 1768381385000))\<rparr>,
         Some \<lparr>ev_type = EvData,
               ev_data = Some (JObject [(''soilMoisture'', JNumber (Fin (10001 / 2))),
                                        (''light'', JNumber (Fin (- 10)))]),
               ev_error = None, ev_timestamp = 1768381385000\<rparr>)
   \<and> (\<forall>n. getprop (JObject [(''soilMoisture'', JString ''wet''), (''light'', JNumber (Fin 3000))])
              ''soilMoisture'' \<noteq> Some (JNumber n))
   \<and> handleMessage 1768381385000
        (Some (JObject [(''soilMoisture'', JString ''wet''), (''light'', JNumber (Fin 3000))]))
        WebSocketService_connectionState
      = (WebSocketService_connectionState, None)"
  using handleMessage_delivers_unchanged [of "JObject [(''soilMoisture'', JNumber (Fin (10001 / 2))), (''light'', JNumber (Fin (- 10)))]"
               "Fin (10001 / 2)" "Fin (- 10)" 1768381385000 WebSocketService_connectionState]
        handleMessage_delivers_unchanged [of "JObject [(''soilMoisture'', JString ''wet''), (''light'', JNumber (Fin 3000))]"
               "Fin 0" "Fin 0" 1768381385000 WebSocketService_connectionState]
  by simp

end
